theory Spec2Isabelle
  imports Complex_Main
begin

section \<open>Python values, exceptions and the operations the source applies to them\<close>

text \<open>
  The source handles the values that \<^verbatim>\<open>json.loads\<close> returns and never checks their
  shape, so the embedding keeps them dynamically typed. A JSON object is the list of its
  members in the order of the dict (keys distinct, as \<^verbatim>\<open>json.loads\<close> leaves them);
  strings are ASCII. JSON numbers are the integers: a number with a fraction or an
  exponent would be a Python float and is outside this model.
\<close>

datatype json =
    JNull
  | JBool bool
  | JInt int
  | JStr string
  | JArr "json list"
  | JObj "(string \<times> json) list"

text \<open>
  The exceptions that the modelled code can raise. The three \<^verbatim>\<open>RuntimeError\<close>s of
  \<^verbatim>\<open>upload_images\<close> carry their message, written without the leading cross mark
  of the source (it is not ASCII).
\<close>

datatype py_error =
    JSONDecodeError
  | IndexError
  | KeyError
  | TypeError
  | ValueError
  | AttributeError
  | OverflowError
  | OSError
  | RuntimeError string

text \<open>\<^verbatim>\<open>x[0]\<close>: the first item of a list, the first character of a string;
  a dict has no key \<^verbatim>\<open>0\<close> (its keys are strings), the other values are not
  subscriptable.\<close>

fun py_index0 :: "json \<Rightarrow> py_error + json" where
  "py_index0 (JArr []) = Inl IndexError"
| "py_index0 (JArr (x # xs)) = Inr x"
| "py_index0 (JStr []) = Inl IndexError"
| "py_index0 (JStr (c # cs)) = Inr (JStr [c])"
| "py_index0 (JObj kvs) = Inl KeyError"
| "py_index0 JNull = Inl TypeError"
| "py_index0 (JBool b) = Inl TypeError"
| "py_index0 (JInt n) = Inl TypeError"

text \<open>\<^verbatim>\<open>x[key]\<close> for a string key: only a dict accepts it.\<close>

fun py_getitem :: "json \<Rightarrow> string \<Rightarrow> py_error + json" where
  "py_getitem (JObj kvs) k = (case map_of kvs k of None \<Rightarrow> Inl KeyError | Some v \<Rightarrow> Inr v)"
| "py_getitem (JArr xs) k = Inl TypeError"
| "py_getitem (JStr s) k = Inl TypeError"
| "py_getitem JNull k = Inl TypeError"
| "py_getitem (JBool b) k = Inl TypeError"
| "py_getitem (JInt n) k = Inl TypeError"

text \<open>\<^verbatim>\<open>x.get(key, default)\<close>: only a dict has the method.\<close>

fun py_get :: "json \<Rightarrow> string \<Rightarrow> json \<Rightarrow> py_error + json" where
  "py_get (JObj kvs) k d = (case map_of kvs k of None \<Rightarrow> Inr d | Some v \<Rightarrow> Inr v)"
| "py_get (JArr xs) k d = Inl AttributeError"
| "py_get (JStr s) k d = Inl AttributeError"
| "py_get JNull k d = Inl AttributeError"
| "py_get (JBool b) k d = Inl AttributeError"
| "py_get (JInt n) k d = Inl AttributeError"

text \<open>Iteration (\<^verbatim>\<open>for x in v\<close>): the items of a list, the characters of a string,
  the keys of a dict.\<close>

fun py_iter :: "json \<Rightarrow> py_error + json list" where
  "py_iter (JArr xs) = Inr xs"
| "py_iter (JStr s) = Inr (map (\<lambda>c. JStr [c]) s)"
| "py_iter (JObj kvs) = Inr (map (\<lambda>kv. JStr (fst kv)) kvs)"
| "py_iter JNull = Inl TypeError"
| "py_iter (JBool b) = Inl TypeError"
| "py_iter (JInt n) = Inl TypeError"

text \<open>\<^verbatim>\<open>a, b = v\<close>: \<^verbatim>\<open>TypeError\<close> when \<open>v\<close> is not iterable,
  \<^verbatim>\<open>ValueError\<close> when it does not hold exactly two items.\<close>

definition py_unpack2 :: "json \<Rightarrow> py_error + (json \<times> json)" where
  "py_unpack2 v =
     (case py_iter v of
        Inl e \<Rightarrow> Inl e
      | Inr items \<Rightarrow> (case items of [a, b] \<Rightarrow> Inr (a, b) | _ \<Rightarrow> Inl ValueError))"

text \<open>
  \<^verbatim>\<open>int(v)\<close>. A string is read as a decimal literal: optional white space around it
  (the characters 9 to 13 and the space), an optional sign, digits, single underscores
  between digits. (Python also accepts digits and spaces outside ASCII and refuses
  literals of more than 4300 digits; neither is modelled.)
\<close>

definition is_space :: "char \<Rightarrow> bool" where
  "is_space c = (let n = (of_char c :: int) in (9 \<le> n \<and> n \<le> 13) \<or> n = 32)"

definition digit_of :: "char \<Rightarrow> int option" where
  "digit_of c = (let n = (of_char c :: int) in if 48 \<le> n \<and> n \<le> 57 then Some (n - 48) else None)"

fun parse_digits :: "int \<Rightarrow> bool \<Rightarrow> string \<Rightarrow> int option" where
  "parse_digits acc after_digit [] = (if after_digit then Some acc else None)"
| "parse_digits acc after_digit (c # cs) =
     (case digit_of c of
        Some d \<Rightarrow> parse_digits (10 * acc + d) True cs
      | None \<Rightarrow> if c = CHR ''_'' \<and> after_digit then parse_digits acc False cs else None)"

definition strip :: "string \<Rightarrow> string" where
  "strip s = rev (dropWhile is_space (rev (dropWhile is_space s)))"

definition int_of_string :: "string \<Rightarrow> py_error + int" where
  "int_of_string s =
     (case strip s of
        [] \<Rightarrow> Inl ValueError
      | c # cs \<Rightarrow>
          if c = CHR ''-'' then
            (case parse_digits 0 False cs of None \<Rightarrow> Inl ValueError | Some n \<Rightarrow> Inr (- n))
          else if c = CHR ''+'' then
            (case parse_digits 0 False cs of None \<Rightarrow> Inl ValueError | Some n \<Rightarrow> Inr n)
          else
            (case parse_digits 0 False (c # cs) of None \<Rightarrow> Inl ValueError | Some n \<Rightarrow> Inr n))"

fun py_int :: "json \<Rightarrow> py_error + int" where
  "py_int (JInt n) = Inr n"
| "py_int (JBool b) = Inr (if b then 1 else 0)"
| "py_int (JStr s) = int_of_string s"
| "py_int JNull = Inl TypeError"
| "py_int (JArr xs) = Inl TypeError"
| "py_int (JObj kvs) = Inl TypeError"

text \<open>\<^verbatim>\<open>sum(...)\<close> over JSON values starts from the integer 0: integers and
  booleans add up, anything else is a \<^verbatim>\<open>TypeError\<close>.\<close>

fun py_sum :: "json list \<Rightarrow> py_error + int" where
  "py_sum [] = Inr 0"
| "py_sum (JInt n # vs) = (case py_sum vs of Inl e \<Rightarrow> Inl e | Inr s \<Rightarrow> Inr (n + s))"
| "py_sum (JBool b # vs) =
     (case py_sum vs of Inl e \<Rightarrow> Inl e | Inr s \<Rightarrow> Inr ((if b then 1 else 0) + s))"
| "py_sum (v # vs) = Inl TypeError"

text \<open>
  \<^verbatim>\<open>len(set(...))\<close> over JSON values. Lists and dicts are unhashable
  (\<^verbatim>\<open>TypeError\<close>); \<^verbatim>\<open>True\<close> and \<^verbatim>\<open>1\<close>, \<^verbatim>\<open>False\<close> and \<^verbatim>\<open>0\<close>
  are equal members of a Python set, so a boolean is counted as its integer.
\<close>

definition py_key :: "json \<Rightarrow> json" where
  "py_key v = (case v of JBool b \<Rightarrow> JInt (if b then 1 else 0) | _ \<Rightarrow> v)"

definition py_hashable :: "json \<Rightarrow> py_error + json" where
  "py_hashable v =
     (case v of
        JArr xs \<Rightarrow> Inl TypeError
      | JObj kvs \<Rightarrow> Inl TypeError
      | _ \<Rightarrow> Inr (py_key v))"

fun py_set :: "json list \<Rightarrow> py_error + json list" where
  "py_set [] = Inr []"
| "py_set (v # vs) =
     (case py_hashable v of
        Inl e \<Rightarrow> Inl e
      | Inr k \<Rightarrow> (case py_set vs of Inl e \<Rightarrow> Inl e | Inr ks \<Rightarrow> Inr (List.insert k ks)))"

section \<open>Python floats\<close>

text \<open>
  The upload path divides amounts by \<^verbatim>\<open>10**9\<close> and keeps a running balance: these are
  Python floats, that is IEEE 754 binary64 numbers, and every operation rounds to the
  nearest float, ties to the even mantissa. A float is modelled by its value: a finite
  one by the rational it denotes (the two zeros are one value: the program only
  compares floats, subtracts them and tests them for zero), the infinities and the
  not-a-number by constructors of their own.
\<close>

datatype pyfloat = Finite rat | PosInf | NegInf | NaN

text \<open>\<^verbatim>\<open>n.bit_length()\<close> for \<open>n \<ge> 0\<close>.\<close>

function bit_length :: "int \<Rightarrow> int" where
  "bit_length n = (if n \<le> 0 then 0 else 1 + bit_length (n div 2))"
  by pat_completeness auto
termination
  by (relation "measure nat") auto

definition pow2 :: "int \<Rightarrow> rat" where
  "pow2 e = (if 0 \<le> e then 2 ^ nat e else 1 / 2 ^ nat (- e))"

text \<open>For \<open>x > 0\<close>, the integer \<open>k\<close> with \<open>2\<^sup>k \<le> x < 2\<^sup>k\<^sup>+\<^sup>1\<close>.\<close>

definition floor_log2 :: "rat \<Rightarrow> int" where
  "floor_log2 x =
     (if 1 \<le> x then bit_length \<lfloor>x\<rfloor> - 1 else - bit_length (\<lceil>1 / x\<rceil> - 1))"

definition round_half_even :: "rat \<Rightarrow> int" where
  "round_half_even y =
     (let f = \<lfloor>y\<rfloor>; d = y - of_int f
      in if d < 1 / 2 then f else if 1 / 2 < d then f + 1 else if even f then f else f + 1)"

text \<open>
  Rounding a rational to binary64: the mantissa \<open>m\<close> has at most 53 bits and the
  exponent \<open>e\<close> of its last bit is at least \<open>-1074\<close> (below the normal range the
  spacing of the floats stays \<open>2\<^sup>-\<^sup>1\<^sup>0\<^sup>7\<^sup>4\<close>). The result overflows (\<open>None\<close>) when the
  rounded value \<open>m * 2\<^sup>e\<close> reaches \<open>2\<^sup>1\<^sup>0\<^sup>2\<^sup>4\<close>, that is when
  \<open>bit_length m + e > 1024\<close>.
\<close>

definition round_double :: "rat \<Rightarrow> rat option" where
  "round_double x =
     (if x = 0 then Some 0
      else
        (let e = max (floor_log2 \<bar>x\<bar> - 52) (- 1074);
             m = round_half_even (\<bar>x\<bar> / pow2 e)
         in if 1024 < bit_length m + e then None else Some (sgn x * (of_int m * pow2 e))))"

text \<open>\<^verbatim>\<open>n / 10**9\<close> for an integer \<open>n\<close>: the correctly rounded quotient, or
  \<^verbatim>\<open>OverflowError\<close> when it is too large for a float.\<close>

definition div_1e9 :: "int \<Rightarrow> py_error + pyfloat" where
  "div_1e9 n =
     (case round_double (of_int n / 10 ^ 9) of
        None \<Rightarrow> Inl OverflowError
      | Some v \<Rightarrow> Inr (Finite v))"

text \<open>\<^verbatim>\<open>x - y\<close> on floats: the rounded difference; an overflow gives an infinity.\<close>

fun float_sub :: "pyfloat \<Rightarrow> pyfloat \<Rightarrow> pyfloat" where
  "float_sub (Finite a) (Finite b) =
     (case round_double (a - b) of
        None \<Rightarrow> if 0 < a - b then PosInf else NegInf
      | Some v \<Rightarrow> Finite v)"
| "float_sub NaN y = NaN"
| "float_sub x NaN = NaN"
| "float_sub PosInf PosInf = NaN"
| "float_sub NegInf NegInf = NaN"
| "float_sub PosInf y = PosInf"
| "float_sub NegInf y = NegInf"
| "float_sub (Finite a) PosInf = NegInf"
| "float_sub (Finite a) NegInf = PosInf"

declare float_sub.simps [simp del]

declare bit_length.simps [simp del]

text \<open>\<^verbatim>\<open>x < y\<close> on floats (\<^verbatim>\<open>x > y\<close> is \<open>float_lt y x\<close>); every comparison with a
  not-a-number is false.\<close>

fun float_lt :: "pyfloat \<Rightarrow> pyfloat \<Rightarrow> bool" where
  "float_lt (Finite a) (Finite b) = (a < b)"
| "float_lt NaN y = False"
| "float_lt x NaN = False"
| "float_lt NegInf NegInf = False"
| "float_lt NegInf y = True"
| "float_lt x NegInf = False"
| "float_lt PosInf y = False"
| "float_lt x PosInf = True"

text \<open>\<^verbatim>\<open>x <= y\<close> on floats.\<close>

definition float_le :: "pyfloat \<Rightarrow> pyfloat \<Rightarrow> bool" where
  "float_le x y = (x \<noteq> NaN \<and> y \<noteq> NaN \<and> \<not> float_lt y x)"

text \<open>\<^verbatim>\<open>not x\<close> on a float holds exactly when \<open>x\<close> is zero.\<close>

definition float_is_zero :: "pyfloat \<Rightarrow> bool" where
  "float_is_zero x = (x = Finite 0)"

section \<open>Paths and the environment\<close>

text \<open>
  A path as \<^verbatim>\<open>pathlib\<close> splits it: the directory, the stem of the final component
  and its suffix (with the dot; empty when there is none).
\<close>

datatype path = Path (parent: string) (stem: string) (suffix: string)

definition path_name :: "path \<Rightarrow> string" where
  "path_name p = stem p @ suffix p"

definition path_str :: "path \<Rightarrow> string" where
  "path_str p = (if parent p = [] then path_name p else parent p @ ''/'' @ path_name p)"

text \<open>\<^verbatim>\<open>p.with_suffix(s)\<close> for a suffix \<open>s\<close> that starts with a dot: the name becomes the
  stem followed by \<open>s\<close>, and is split again at its last dot (so
  \<^verbatim>\<open>a.png\<close> with \<^verbatim>\<open>.stored.json\<close> has the stem \<^verbatim>\<open>a.stored\<close> and the
  suffix \<^verbatim>\<open>.json\<close>).\<close>

definition with_suffix :: "path \<Rightarrow> string \<Rightarrow> path" where
  "with_suffix p s =
     (let ext = CHR ''.'' # rev (takeWhile (\<lambda>c. c \<noteq> CHR ''.'') (rev s))
      in Path (parent p) (stem p @ take (length s - length ext) s) ext)"

definition lower_char :: "char \<Rightarrow> char" where
  "lower_char c =
     (case map_of (zip ''ABCDEFGHIJKLMNOPQRSTUVWXYZ'' ''abcdefghijklmnopqrstuvwxyz'') c of
        None \<Rightarrow> c
      | Some l \<Rightarrow> l)"

definition lower :: "string \<Rightarrow> string" where
  "lower s = map lower_char s"

definition is_image :: "path \<Rightarrow> bool" where
  "is_image p = (lower (suffix p) \<in> set [''.webp'', ''.png'', ''.jpg'', ''.jpeg'', ''.gif''])"

text \<open>
  What a finished \<^verbatim>\<open>subprocess.run\<close> hands back: the exit status and the standard
  output. The output is kept as what \<^verbatim>\<open>json.loads\<close> makes of it: \<open>None\<close> when the
  text is not well-formed JSON, the parsed value otherwise.
\<close>

record completed_process =
  returncode :: int
  stdout :: "json option"

definition json_loads :: "json option \<Rightarrow> py_error + json" where
  "json_loads out = (case out of None \<Rightarrow> Inl JSONDecodeError | Some v \<Rightarrow> Inr v)"

text \<open>
  The world outside the program: what each command line answers (the same answer every
  time it is run), the files that \<^verbatim>\<open>path.rglob("*")\<close> enumerates, and which files
  can be opened for writing. The files that the program itself writes
  (\<^verbatim>\<open>.json\<close> markers and \<^verbatim>\<open>.stored.json\<close> answers) are never images, so the
  enumeration of the images does not change during a run. The set of files that exist is
  the state the functions below pass along.
\<close>

record env =
  subprocess_run :: "string list \<Rightarrow> completed_process"
  rglob :: "path list"
  writable :: "path \<Rightarrow> bool"

text \<open>Lines 53 and 114-115: the candidate images, in the order of the enumeration, and
  their state markers.\<close>

definition image_paths :: "env \<Rightarrow> path list" where
  "image_paths env = filter is_image (rglob env)"

definition json_paths :: "env \<Rightarrow> path set" where
  "json_paths env = set (map (\<lambda>p. with_suffix p ''.json'') (image_paths env))"

section \<open>The external client wrapper\<close>

definition walrus_cmd :: "path \<Rightarrow> string \<Rightarrow> string \<Rightarrow> bool \<Rightarrow> bool \<Rightarrow> string list" where
  "walrus_cmd image_path ctx epochs share dry_run =
     [''walrus'', ''store'', path_str image_path, ''--context'', ctx, ''--epochs'', epochs, ''--json'']
     @ (if dry_run then [''--dry-run''] else [])
     @ (if share then [''--share''] else [])"

definition run_walrus_command ::
  "env \<Rightarrow> path \<Rightarrow> string \<Rightarrow> string \<Rightarrow> bool \<Rightarrow> bool \<Rightarrow> py_error + json" where
  "run_walrus_command env image_path ctx epochs share dry_run =
     (let result = subprocess_run env (walrus_cmd image_path ctx epochs share dry_run)
      in case json_loads (stdout result) of
           Inl e \<Rightarrow> Inl e
         | Inr v \<Rightarrow> py_index0 v)"

definition get_sui_balances :: "env \<Rightarrow> py_error + json" where
  "get_sui_balances env =
     (let result = subprocess_run env [''sui'', ''client'', ''balance'', ''--json'']
      in json_loads (stdout result))"

section \<open>The upload path\<close>

text \<open>
  \<^verbatim>\<open>get_balances\<close>: the loop over the token groups keeps the last balance seen for
  each symbol, starting from 0 for both; any malformed group raises. The two amounts
  are then divided by \<open>10\<^sup>9\<close>, the SUI amount first; the quotients are floats.
\<close>

definition coin_balance :: "json \<Rightarrow> py_error + int" where
  "coin_balance coins =
     (case py_index0 coins of
        Inl e \<Rightarrow> Inl e
      | Inr coin \<Rightarrow>
          (case py_getitem coin ''balance'' of
             Inl e \<Rightarrow> Inl e
           | Inr b \<Rightarrow> py_int b))"

fun token_groups :: "json list \<Rightarrow> int \<Rightarrow> int \<Rightarrow> py_error + (int \<times> int)" where
  "token_groups [] sui_balance wal_balance = Inr (sui_balance, wal_balance)"
| "token_groups (token_group # rest) sui_balance wal_balance =
     (case py_unpack2 token_group of
        Inl e \<Rightarrow> Inl e
      | Inr (metadata, coins) \<Rightarrow>
          (case py_get metadata ''symbol'' JNull of
             Inl e \<Rightarrow> Inl e
           | Inr symbol \<Rightarrow>
               if symbol = JStr ''SUI'' then
                 (case coin_balance coins of
                    Inl e \<Rightarrow> Inl e
                  | Inr b \<Rightarrow> token_groups rest b wal_balance)
               else if symbol = JStr ''WAL'' then
                 (case coin_balance coins of
                    Inl e \<Rightarrow> Inl e
                  | Inr b \<Rightarrow> token_groups rest sui_balance b)
               else token_groups rest sui_balance wal_balance))"

definition get_balances :: "json \<Rightarrow> py_error + (pyfloat \<times> pyfloat)" where
  "get_balances balances =
     (case py_index0 balances of
        Inl e \<Rightarrow> Inl e
      | Inr groups \<Rightarrow>
          (case py_iter groups of
             Inl e \<Rightarrow> Inl e
           | Inr gs \<Rightarrow>
               (case token_groups gs 0 0 of
                  Inl e \<Rightarrow> Inl e
                | Inr (sui_balance, wal_balance) \<Rightarrow>
                    (case div_1e9 sui_balance of
                       Inl e \<Rightarrow> Inl e
                     | Inr sui \<Rightarrow>
                         (case div_1e9 wal_balance of
                            Inl e \<Rightarrow> Inl e
                          | Inr wal \<Rightarrow> Inr (sui, wal))))))"

text \<open>
  The dicts the two paths build, as records; each field carries the key of the dict
  after a prefix (\<open>r_\<close> for a stored blob, \<open>s_\<close> for a simulated one, \<open>e_\<close> for an
  error entry). The values copied from the client's answer stay JSON values.
\<close>

record upload_result =
  r_name :: string
  r_blobId :: json
  r_size :: json
  r_cost :: json
  r_sharedBlobObject :: json

record item_error =
  e_image :: string
  e_error :: py_error

record 'c totals =
  unencoded :: int
  encoded :: int
  cost :: 'c
  totalBlobIds :: nat
  uniqueBlobIds :: nat
  duplicateBlobIds :: int
  hasDuplicates :: bool

record wallet_snapshot =
  sui_balance :: pyfloat
  wal_balance :: pyfloat

record upload_totals = "pyfloat totals" +
  wallet :: wallet_snapshot

text \<open>
  The state of the loop of \<^verbatim>\<open>upload_images\<close>: the running balance, the two lists,
  and the effects on the world: the files that exist, and \<open>stored\<close>, the items for
  which the real store command (\<^verbatim>\<open>dry_run=False\<close>) has been run, in order.
\<close>

record upload_state =
  wal_available :: pyfloat
  results :: "upload_result list"
  errors :: "item_error list"
  files :: "path set"
  stored :: "path list"

text \<open>Lines 71-72: the dry run and the cost it announces, in WAL.\<close>

definition estimate_cost :: "env \<Rightarrow> path \<Rightarrow> string \<Rightarrow> string \<Rightarrow> bool \<Rightarrow> py_error + pyfloat" where
  "estimate_cost env img_path ctx epochs share =
     (case run_walrus_command env img_path ctx epochs share True of
        Inl e \<Rightarrow> Inl e
      | Inr dry_info \<Rightarrow>
          (case py_getitem dry_info ''storageCost'' of
             Inl e \<Rightarrow> Inl e
           | Inr c \<Rightarrow>
               (case py_int c of
                  Inl e \<Rightarrow> Inl e
                | Inr n \<Rightarrow> div_1e9 n)))"

text \<open>Lines 80-87: the entry of the results list, read from the answer of the real store.\<close>

definition stored_entry :: "json \<Rightarrow> path \<Rightarrow> py_error + upload_result" where
  "stored_entry real_info img_path =
     (case py_getitem real_info ''blobStoreResult'' of
        Inl e \<Rightarrow> Inl e
      | Inr blob_store_result \<Rightarrow>
     (case py_getitem blob_store_result ''newlyCreated'' of
        Inl e \<Rightarrow> Inl e
      | Inr newly_created \<Rightarrow>
     (case py_getitem newly_created ''blobObject'' of
        Inl e \<Rightarrow> Inl e
      | Inr blob_info \<Rightarrow>
     (case py_getitem blob_info ''blobId'' of
        Inl e \<Rightarrow> Inl e
      | Inr blob_id \<Rightarrow>
     (case py_getitem blob_info ''size'' of
        Inl e \<Rightarrow> Inl e
      | Inr blob_size \<Rightarrow>
     (case py_getitem newly_created ''cost'' of
        Inl e \<Rightarrow> Inl e
      | Inr blob_cost \<Rightarrow>
     (case py_get newly_created ''sharedBlobObject'' (JStr []) of
        Inl e \<Rightarrow> Inl e
      | Inr shared \<Rightarrow>
          Inr \<lparr>r_name = path_name img_path, r_blobId = blob_id, r_size = blob_size,
               r_cost = blob_cost, r_sharedBlobObject = shared\<rparr>)))))))"

definition record_error :: "path \<Rightarrow> py_error \<Rightarrow> upload_state \<Rightarrow> upload_state" where
  "record_error img_path e st =
     st\<lparr>errors := errors st @ [\<lparr>e_image = path_str img_path, e_error = e\<rparr>]\<rparr>"

text \<open>
  Lines 68-92, one pass of the loop. Whatever the \<^verbatim>\<open>try\<close> block raises becomes an
  entry of the errors list and the loop goes on with the next item; what the block did
  before raising (the real store, the file written) stays done.
\<close>

definition upload_item ::
  "env \<Rightarrow> string \<Rightarrow> string \<Rightarrow> bool \<Rightarrow> upload_state \<Rightarrow> path \<Rightarrow> upload_state" where
  "upload_item env ctx epochs share st img_path =
     (case estimate_cost env img_path ctx epochs share of
        Inl e \<Rightarrow> record_error img_path e st
      | Inr c \<Rightarrow>
          if float_lt (wal_available st) c then
            record_error img_path
              (RuntimeError (''Not enough WAL balance to store '' @ path_name img_path)) st
          else
            (let st1 = st\<lparr>stored := stored st @ [img_path]\<rparr> in
             case run_walrus_command env img_path ctx epochs share False of
               Inl e \<Rightarrow> record_error img_path e st1
             | Inr real_info \<Rightarrow>
                 (let output_path = with_suffix img_path ''.stored.json'' in
                  if \<not> writable env output_path then record_error img_path OSError st1
                  else
                    (let st2 = st1\<lparr>files := insert output_path (files st1)\<rparr> in
                     case stored_entry real_info img_path of
                       Inl e \<Rightarrow> record_error img_path e st2
                     | Inr r \<Rightarrow>
                         st2\<lparr>results := results st2 @ [r],
                             wal_available := float_sub (wal_available st2) c\<rparr>))))"

fun upload_loop ::
  "env \<Rightarrow> string \<Rightarrow> string \<Rightarrow> bool \<Rightarrow> upload_state \<Rightarrow> path list \<Rightarrow> upload_state" where
  "upload_loop env ctx epochs share st [] = st"
| "upload_loop env ctx epochs share st (img_path # rest) =
     upload_loop env ctx epochs share (upload_item env ctx epochs share st img_path) rest"

text \<open>Lines 94-108: the totals of the upload path.\<close>

definition upload_summary ::
  "upload_result list \<Rightarrow> pyfloat \<Rightarrow> pyfloat \<Rightarrow> py_error + upload_totals" where
  "upload_summary rs sui wal =
     (case py_sum (map r_cost rs) of
        Inl e \<Rightarrow> Inl e
      | Inr cost_sum \<Rightarrow>
     (case div_1e9 cost_sum of
        Inl e \<Rightarrow> Inl e
      | Inr total_cost \<Rightarrow>
     (case py_sum (map r_size rs) of
        Inl e \<Rightarrow> Inl e
      | Inr total_size \<Rightarrow>
     (case py_set (map r_blobId rs) of
        Inl e \<Rightarrow> Inl e
      | Inr ids \<Rightarrow>
          Inr \<lparr>unencoded = total_size,
               encoded = total_size,
               cost = total_cost,
               totalBlobIds = length rs,
               uniqueBlobIds = length ids,
               duplicateBlobIds = int (length rs) - int (length ids),
               hasDuplicates = (length rs \<noteq> length ids),
               wallet = \<lparr>sui_balance = sui, wal_balance = wal\<rparr>\<rparr>))))"

text \<open>
  \<^verbatim>\<open>upload_images\<close>. The result is what the call returns or raises, together with the
  state the loop ended in (the initial one, its balance not yet set, when the call
  raised before the loop). The \<^verbatim>\<open>workers\<close> argument is read and never used by the
  source.
\<close>

definition upload_images ::
  "env \<Rightarrow> path set \<Rightarrow> string \<Rightarrow> string \<Rightarrow> bool \<Rightarrow>
   (py_error + (upload_result list \<times> item_error list \<times> upload_totals)) \<times> upload_state" where
  "upload_images env fs ctx epochs share =
     (let st0 = \<lparr>wal_available = Finite 0, results = [], errors = [], files = fs, stored = []\<rparr>
      in case get_sui_balances env of
           Inl e \<Rightarrow> (Inl e, st0)
         | Inr balances \<Rightarrow>
             (case get_balances balances of
                Inl e \<Rightarrow> (Inl e, st0)
              | Inr (sui, wal) \<Rightarrow>
                  if float_is_zero sui \<or> float_le sui (Finite 0) then
                    (Inl (RuntimeError ''SUI balance is missing or zero.''), st0)
                  else if float_is_zero wal then
                    (Inl (RuntimeError ''WAL/FROST balance not found.''), st0)
                  else
                    (let st = upload_loop env ctx epochs share (st0\<lparr>wal_available := wal\<rparr>)
                                (image_paths env)
                     in case upload_summary (results st) sui wal of
                          Inl e \<Rightarrow> (Inl e, st)
                        | Inr totals \<Rightarrow> (Inr (results st, errors st, totals), st))))"

text \<open>
  The items admitted by a run: those for which the real store command was run.
\<close>

definition admitted :: "env \<Rightarrow> path set \<Rightarrow> string \<Rightarrow> string \<Rightarrow> bool \<Rightarrow> path set" where
  "admitted env fs ctx epochs share = set (stored (snd (upload_images env fs ctx epochs share)))"

text \<open>
  Whether the part of the \<^verbatim>\<open>try\<close> block after the balance check completes for an
  image: the real store answers, its answer can be saved and holds the fields of a
  result. Only then is the cost subtracted from the running balance.
\<close>

definition store_succeeds :: "env \<Rightarrow> string \<Rightarrow> string \<Rightarrow> bool \<Rightarrow> path \<Rightarrow> bool" where
  "store_succeeds env ctx epochs share p =
     (case run_walrus_command env p ctx epochs share False of
        Inl e \<Rightarrow> False
      | Inr real_info \<Rightarrow>
          writable env (with_suffix p ''.stored.json'') \<and> \<not> isl (stored_entry real_info p))"

text \<open>
  The admission that the loop performs, as a function of the costs \<open>c\<close>, of the items
  whose store completes (\<open>ok\<close>) and of the balance \<open>b\<close>: an item that costs more than
  what is left is passed over, and the next one is looked at with the same balance.
\<close>

fun admit ::
  "(path \<Rightarrow> pyfloat) \<Rightarrow> (path \<Rightarrow> bool) \<Rightarrow> pyfloat \<Rightarrow> path list \<Rightarrow> path list" where
  "admit c ok b [] = []"
| "admit c ok b (p # ps) =
     (if float_lt b (c p) then admit c ok b ps
      else p # admit c ok (if ok p then float_sub b (c p) else b) ps)"

section \<open>The simulate path\<close>

record sim_result =
  s_img_path :: string
  s_blobId :: json
  s_unencodedSize :: json
  s_encodedSize :: json
  s_storageCost :: json
  s_encodingType :: json

text \<open>Lines 173-181 of \<^verbatim>\<open>simulate_image\<close>: the result dict, read from the dry run's answer.\<close>

definition simulated_entry :: "json \<Rightarrow> path \<Rightarrow> py_error + sim_result" where
  "simulated_entry output p =
     (case (case output of JArr xs \<Rightarrow> py_index0 output | _ \<Rightarrow> Inr output) of
        Inl e \<Rightarrow> Inl e
      | Inr blob \<Rightarrow>
     (case py_getitem blob ''blobId'' of
        Inl e \<Rightarrow> Inl e
      | Inr blob_id \<Rightarrow>
     (case py_getitem blob ''unencodedSize'' of
        Inl e \<Rightarrow> Inl e
      | Inr unencoded_size \<Rightarrow>
     (case py_getitem blob ''encodedSize'' of
        Inl e \<Rightarrow> Inl e
      | Inr encoded_size \<Rightarrow>
     (case py_getitem blob ''storageCost'' of
        Inl e \<Rightarrow> Inl e
      | Inr storage_cost \<Rightarrow>
     (case py_get blob ''encodingType'' (JStr []) of
        Inl e \<Rightarrow> Inl e
      | Inr encoding_type \<Rightarrow>
          Inr \<lparr>s_img_path = path_str p, s_blobId = blob_id, s_unencodedSize = unencoded_size,
               s_encodedSize = encoded_size, s_storageCost = storage_cost,
               s_encodingType = encoding_type\<rparr>))))))"

text \<open>
  \<^verbatim>\<open>simulate_image\<close> returns the result dict after writing it to the state marker
  (the image's path with the suffix \<^verbatim>\<open>.json\<close>), or the error dict when anything
  raised; the marker is written only on success. The two dicts are the two sides of a
  sum: \<open>Inl\<close> is the dict with the key \<^verbatim>\<open>error\<close>.
\<close>

definition simulate_image ::
  "env \<Rightarrow> path \<Rightarrow> string \<Rightarrow> string \<Rightarrow> bool \<Rightarrow> path set \<Rightarrow> (item_error + sim_result) \<times> path set" where
  "simulate_image env p ctx epochs share fs =
     (case run_walrus_command env p ctx epochs share True of
        Inl e \<Rightarrow> (Inl \<lparr>e_image = path_str p, e_error = e\<rparr>, fs)
      | Inr output \<Rightarrow>
          (case simulated_entry output p of
             Inl e \<Rightarrow> (Inl \<lparr>e_image = path_str p, e_error = e\<rparr>, fs)
           | Inr result \<Rightarrow>
               if \<not> writable env (with_suffix p ''.json'') then
                 (Inl \<lparr>e_image = path_str p, e_error = OSError\<rparr>, fs)
               else (Inr result, insert (with_suffix p ''.json'') fs)))"

text \<open>The outcome of \<^verbatim>\<open>simulate_image\<close> for an image; it does not depend on the
  files that exist.\<close>

definition sim_outcome :: "env \<Rightarrow> string \<Rightarrow> string \<Rightarrow> bool \<Rightarrow> path \<Rightarrow> item_error + sim_result" where
  "sim_outcome env ctx epochs share p = fst (simulate_image env p ctx epochs share {})"

text \<open>
  \<^verbatim>\<open>executor.map(simulate_image_wrapper, args)\<close>: one call per task, the outcomes in
  the order of the tasks. The workers run side by side in the source; the model runs the
  calls one after the other (each call touches its own marker only).
\<close>

fun simulate_all ::
  "env \<Rightarrow> string \<Rightarrow> string \<Rightarrow> bool \<Rightarrow> path list \<Rightarrow> path set \<Rightarrow> (item_error + sim_result) list \<times> path set" where
  "simulate_all env ctx epochs share [] fs = ([], fs)"
| "simulate_all env ctx epochs share (p # ps) fs =
     (let (outcome, fs1) = simulate_image env p ctx epochs share fs;
          (outcomes, fs2) = simulate_all env ctx epochs share ps fs1
      in (outcome # outcomes, fs2))"

text \<open>Lines 134-138: an outcome with the key \<^verbatim>\<open>error\<close> goes to the errors, any other
  to the results.\<close>

fun split_outcomes :: "('e + 'r) list \<Rightarrow> 'r list \<times> 'e list" where
  "split_outcomes [] = ([], [])"
| "split_outcomes (outcome # rest) =
     (let (rs, es) = split_outcomes rest
      in case outcome of Inl e \<Rightarrow> (rs, e # es) | Inr r \<Rightarrow> (r # rs, es))"

text \<open>Lines 122-129: the selection of the tasks, in the order of the enumeration.\<close>

definition select_tasks :: "bool \<Rightarrow> path set \<Rightarrow> path list \<Rightarrow> path list" where
  "select_tasks resume fs candidates =
     filter (\<lambda>img_path.
        let json_path = with_suffix img_path ''.json'' in
        if resume \<and> json_path \<notin> fs then False
        else if \<not> resume \<and> json_path \<in> fs then False
        else True) candidates"

text \<open>\<^verbatim>\<open>ProcessPoolExecutor(max_workers=workers or cpu_count())\<close> raises
  \<^verbatim>\<open>ValueError\<close> for a negative worker count (0 and \<^verbatim>\<open>None\<close> fall back to the
  CPU count).\<close>

definition bad_workers :: "int option \<Rightarrow> bool" where
  "bad_workers workers = (case workers of None \<Rightarrow> False | Some w \<Rightarrow> w < 0)"

text \<open>Lines 140-166: the duplicate count, gated by \<^verbatim>\<open>verify\<close>, and the totals.\<close>

definition count_duplicates :: "bool \<Rightarrow> sim_result list \<Rightarrow> py_error + int" where
  "count_duplicates verify rs =
     (if verify then
        (case py_set (map s_blobId rs) of
           Inl e \<Rightarrow> Inl e
         | Inr unique_ids \<Rightarrow> Inr (int (length rs) - int (length unique_ids)))
      else Inr 0)"

definition simulate_summary :: "sim_result list \<Rightarrow> int \<Rightarrow> py_error + int totals" where
  "simulate_summary rs duplicates =
     (case py_sum (map s_storageCost rs) of
        Inl e \<Rightarrow> Inl e
      | Inr total_cost \<Rightarrow>
     (case py_sum (map s_unencodedSize rs) of
        Inl e \<Rightarrow> Inl e
      | Inr total_unencoded \<Rightarrow>
     (case py_sum (map s_encodedSize rs) of
        Inl e \<Rightarrow> Inl e
      | Inr total_encoded \<Rightarrow>
     (case py_set (map s_blobId rs) of
        Inl e \<Rightarrow> Inl e
      | Inr ids \<Rightarrow>
          Inr \<lparr>unencoded = total_unencoded,
               encoded = total_encoded,
               cost = total_cost,
               totalBlobIds = length rs,
               uniqueBlobIds = length ids,
               duplicateBlobIds = duplicates,
               hasDuplicates = (duplicates > 0)\<rparr>))))"

text \<open>
  \<^verbatim>\<open>process_images\<close>: what the call returns or raises, and the files that exist
  afterwards.
\<close>

definition process_images ::
  "env \<Rightarrow> path set \<Rightarrow> string \<Rightarrow> string \<Rightarrow> bool \<Rightarrow> bool \<Rightarrow> bool \<Rightarrow> int option \<Rightarrow> bool \<Rightarrow> bool \<Rightarrow>
   (py_error + (sim_result list \<times> item_error list \<times> int totals)) \<times> path set" where
  "process_images env fs ctx epochs share resume fresh workers verify clean =
     (let fs1 = (if fresh then fs - json_paths env else fs);
          tasks = select_tasks resume fs1 (image_paths env)
      in if bad_workers workers then (Inl ValueError, fs1)
         else
           (let (outcomes, fs2) = simulate_all env ctx epochs share tasks fs1;
                (rs, es) = split_outcomes outcomes
            in case count_duplicates verify rs of
                 Inl e \<Rightarrow> (Inl e, fs2)
               | Inr duplicates \<Rightarrow>
                   (let fs3 = (if clean then fs2 - json_paths env else fs2)
                    in case simulate_summary rs duplicates of
                         Inl e \<Rightarrow> (Inl e, fs3)
                       | Inr totals \<Rightarrow> (Inr (rs, es, totals), fs3))))"

section \<open>The simulate command and its interruption\<close>

text \<open>
  Once both clients are found installed, \<^verbatim>\<open>cli.simulate\<close> calls \<^verbatim>\<open>process_images\<close> and, when a \<^verbatim>\<open>KeyboardInterrupt\<close>
  comes out of it, calls it a second time with \<^verbatim>\<open>resume=False\<close>, \<^verbatim>\<open>fresh=False\<close>
  and \<^verbatim>\<open>clean=False\<close>. The signal is asynchronous; the model takes as a parameter the
  set \<open>finished\<close> of the tasks whose simulation had completed when it arrived during the
  pool's run (\<open>None\<close>: no signal). \<open>interrupted_files\<close> is the file system the first call
  leaves behind in that case: the fresh wipe has been done, the finished tasks have
  written their markers, the cleanup has not run. With a negative worker count no pool
  ever runs: the first call raises \<^verbatim>\<open>ValueError\<close>, which is not caught.
\<close>

definition interrupted_files ::
  "env \<Rightarrow> path set \<Rightarrow> string \<Rightarrow> string \<Rightarrow> bool \<Rightarrow> bool \<Rightarrow> bool \<Rightarrow> path set \<Rightarrow> path set" where
  "interrupted_files env fs ctx epochs share resume fresh finished =
     (let fs1 = (if fresh then fs - json_paths env else fs);
          tasks = select_tasks resume fs1 (image_paths env)
      in snd (simulate_all env ctx epochs share (filter (\<lambda>p. p \<in> finished) tasks) fs1))"

text \<open>The result: what is handed to the report generator (the outcome of
  \<^verbatim>\<open>process_images\<close>), the \<^verbatim>\<open>interrupted\<close> flag of the metadata, and the files left.\<close>

definition simulate ::
  "env \<Rightarrow> path set \<Rightarrow> string \<Rightarrow> string \<Rightarrow> bool \<Rightarrow> bool \<Rightarrow> bool \<Rightarrow> int option \<Rightarrow> bool \<Rightarrow> bool \<Rightarrow>
   path set option \<Rightarrow>
   (py_error + (sim_result list \<times> item_error list \<times> int totals)) \<times> bool \<times> path set" where
  "simulate env fs ctx epochs share resume fresh workers verify clean signal =
     (case (if bad_workers workers then None else signal) of
        None \<Rightarrow>
          (let (outcome, fs') = process_images env fs ctx epochs share resume fresh workers verify clean
           in (outcome, False, fs'))
      | Some finished \<Rightarrow>
          (let fs_int = interrupted_files env fs ctx epochs share resume fresh finished;
               (outcome, fs') = process_images env fs_int ctx epochs share False False workers verify False
           in (outcome, True, fs')))"

section \<open>Example worlds\<close>

text \<open>
  A world built from a table of answers: a command of the table exits with status 0 and
  prints its answer, any other exits with status 1 and prints nothing that parses.
  Every file can be written.
\<close>

definition client :: "(string list \<times> json) list \<Rightarrow> path list \<Rightarrow> env" where
  "client answers found =
     \<lparr>subprocess_run =
        (\<lambda>cmd. case map_of answers cmd of
                 None \<Rightarrow> \<lparr>returncode = 1, stdout = None\<rparr>
               | Some v \<Rightarrow> \<lparr>returncode = 0, stdout = Some v\<rparr>),
      rglob = found,
      writable = (\<lambda>p. True)\<rparr>"

text \<open>The wallet client's listing for the given SUI and WAL balances (in smallest units).\<close>

definition wallet_json :: "string \<Rightarrow> string \<Rightarrow> json" where
  "wallet_json sui wal =
     JArr [JArr [JArr [JObj [(''symbol'', JStr ''SUI'')], JArr [JObj [(''balance'', JStr sui)]]],
                 JArr [JObj [(''symbol'', JStr ''WAL'')], JArr [JObj [(''balance'', JStr wal)]]]],
           JBool False]"

definition balance_query :: "string \<Rightarrow> string \<Rightarrow> string list \<times> json" where
  "balance_query sui wal = ([''sui'', ''client'', ''balance'', ''--json''], wallet_json sui wal)"

text \<open>The storage client's answers to a dry run and to a real store of one image
  (context \<^verbatim>\<open>mainnet\<close>, epochs \<^verbatim>\<open>max\<close>, no sharing).\<close>

definition dry_run_of :: "path \<Rightarrow> string \<Rightarrow> int \<Rightarrow> int \<Rightarrow> string list \<times> json" where
  "dry_run_of p blob_id n c =
     (walrus_cmd p ''mainnet'' ''max'' False True,
      JArr [JObj [(''blobId'', JStr blob_id), (''unencodedSize'', JInt n),
                  (''encodedSize'', JInt (64 * n)), (''storageCost'', JInt c),
                  (''encodingType'', JStr ''RS2'')]])"

definition store_of :: "path \<Rightarrow> string \<Rightarrow> int \<Rightarrow> int \<Rightarrow> string list \<times> json" where
  "store_of p blob_id n c =
     (walrus_cmd p ''mainnet'' ''max'' False False,
      JArr [JObj [(''blobStoreResult'',
              JObj [(''newlyCreated'',
                JObj [(''blobObject'', JObj [(''blobId'', JStr blob_id), (''size'', JInt n)]),
                      (''cost'', JInt c)])])]])"

definition img_a :: path where "img_a = Path ''images'' ''a'' ''.png''"
definition img_b :: path where "img_b = Path ''images'' ''b'' ''.PNG''"
definition img_c :: path where "img_c = Path ''images'' ''c'' ''.jpg''"
definition img_d :: path where "img_d = Path ''images'' ''d'' ''.webp''"
definition notes_txt :: path where "notes_txt = Path ''images'' ''notes'' ''.txt''"

text \<open>Two images: the first costs 10 WAL, the second 1 WAL; the wallet holds 1 SUI and
  5 WAL.\<close>

definition two_images_env :: env where
  "two_images_env =
     client [balance_query ''1000000000'' ''5000000000'',
             dry_run_of img_a ''A'' 100 10000000000, store_of img_a ''A'' 100 10000000000,
             dry_run_of img_b ''B'' 200 1000000000, store_of img_b ''B'' 200 1000000000]
            [img_a, notes_txt, img_b]"

text \<open>The same two images; the wallet holds 1 SUI and a WAL balance of exactly zero.\<close>

definition zero_wal_env :: env where
  "zero_wal_env =
     client [balance_query ''1000000000'' ''0'',
             dry_run_of img_a ''A'' 100 10000000000, store_of img_a ''A'' 100 10000000000,
             dry_run_of img_b ''B'' 200 1000000000, store_of img_b ''B'' 200 1000000000]
            [img_a, notes_txt, img_b]"

text \<open>Four images whose blob identifiers are A, A, B, C, costing 2, 4, 1 and 1 WAL; the
  wallet holds 1 SUI and the given WAL balance.\<close>

definition four_images_env :: "string \<Rightarrow> env" where
  "four_images_env wal =
     client [balance_query ''1000000000'' wal,
             dry_run_of img_a ''A'' 100 2000000000, store_of img_a ''A'' 100 2000000000,
             dry_run_of img_b ''A'' 100 4000000000, store_of img_b ''A'' 100 4000000000,
             dry_run_of img_c ''B'' 300 1000000000, store_of img_c ''B'' 300 1000000000,
             dry_run_of img_d ''C'' 400 1000000000, store_of img_d ''C'' 400 1000000000]
            [img_a, img_b, notes_txt, img_c, img_d]"

text \<open>Three images costing 0.1 WAL each; the wallet holds 1 SUI and 0.3 WAL.\<close>

definition three_tenths_env :: env where
  "three_tenths_env =
     client [balance_query ''1000000000'' ''300000000'',
             dry_run_of img_a ''A'' 100 100000000, store_of img_a ''A'' 100 100000000,
             dry_run_of img_b ''B'' 200 100000000, store_of img_b ''B'' 200 100000000,
             dry_run_of img_c ''C'' 300 100000000, store_of img_c ''C'' 300 100000000]
            [img_a, img_b, img_c]"

text \<open>Two images for which the client gives complete answers, the cost as a JSON string
  instead of a number; the wallet holds 1 SUI and 5 WAL.\<close>

definition string_cost_env :: env where
  "string_cost_env =
     client [balance_query ''1000000000'' ''5000000000'',
             (walrus_cmd img_a ''mainnet'' ''max'' False True,
              JArr [JObj [(''blobId'', JStr ''A''), (''unencodedSize'', JInt 100),
                          (''encodedSize'', JInt 6400), (''storageCost'', JStr ''1000000000'')]]),
             (walrus_cmd img_a ''mainnet'' ''max'' False False,
              JArr [JObj [(''blobStoreResult'',
                      JObj [(''newlyCreated'',
                        JObj [(''blobObject'', JObj [(''blobId'', JStr ''A''), (''size'', JInt 100)]),
                              (''cost'', JStr ''1000000000'')])])]]),
             (walrus_cmd img_b ''mainnet'' ''max'' False True,
              JArr [JObj [(''blobId'', JStr ''B''), (''unencodedSize'', JInt 200),
                          (''encodedSize'', JInt 12800), (''storageCost'', JStr ''1000000000'')]]),
             (walrus_cmd img_b ''mainnet'' ''max'' False False,
              JArr [JObj [(''blobStoreResult'',
                      JObj [(''newlyCreated'',
                        JObj [(''blobObject'', JObj [(''blobId'', JStr ''B''), (''size'', JInt 200)]),
                              (''cost'', JStr ''1000000000'')])])]])]
            [img_a, img_b]"

text \<open>Two images; the client answers for the first one only.\<close>

definition one_failing_env :: env where
  "one_failing_env =
     client [balance_query ''1000000000'' ''5000000000'',
             dry_run_of img_a ''A'' 100 1000000000, store_of img_a ''A'' 100 1000000000]
            [img_a, img_b]"


text \<open>A client that exits with status 1 although it printed a well-formed answer.\<close>

definition failing_exit_env :: env where
  "failing_exit_env =
     \<lparr>subprocess_run =
        (\<lambda>cmd. \<lparr>returncode = 1, stdout = Some (JArr [JObj [(''blobId'', JStr ''b1'')]])\<rparr>),
      rglob = [Path ''images'' ''a'' ''.png''],
      writable = (\<lambda>p. True)\<rparr>"

text \<open>A client that exits with status 0 and prints a JSON string, not an array of records.\<close>

definition string_output_env :: env where
  "string_output_env =
     \<lparr>subprocess_run = (\<lambda>cmd. \<lparr>returncode = 0, stdout = Some (JStr ''ok'')\<rparr>),
      rglob = [Path ''images'' ''a'' ''.png''],
      writable = (\<lambda>p. True)\<rparr>"

section \<open>Auxiliary facts\<close>

text \<open>The length of a Python set built from a list of JSON values.\<close>

lemma py_set_Inr: "py_set vs = Inr ks \<Longrightarrow> distinct ks \<and> set ks = py_key ` set vs"
proof (induction vs arbitrary: ks)
  case Nil
  then show ?case by simp
next
  case (Cons v vs)
  from Cons.prems obtain k ks' where
    k: "py_hashable v = Inr k" and ks': "py_set vs = Inr ks'" and ks: "ks = List.insert k ks'"
    by (auto split: sum.splits)
  from k have "k = py_key v"
    by (auto simp: py_hashable_def split: json.splits)
  with Cons.IH [OF ks'] ks show ?case
    by auto
qed

lemma length_py_set: "py_set vs = Inr ks \<Longrightarrow> length ks = card (py_key ` set vs)"
  using py_set_Inr [of vs ks] distinct_card [of ks] by simp

lemma length_py_set_le: "py_set vs = Inr ks \<Longrightarrow> length ks \<le> length vs"
proof -
  assume "py_set vs = Inr ks"
  then have "length ks = card (py_key ` set vs)" by (rule length_py_set)
  also have "\<dots> \<le> card (set vs)" by (rule card_image_le) simp
  also have "\<dots> \<le> length vs" by (rule card_length)
  finally show ?thesis .
qed

lemma length_py_set_eq_iff:
  "py_set vs = Inr ks \<Longrightarrow> length ks = length vs \<longleftrightarrow> distinct (map py_key vs)"
proof -
  assume "py_set vs = Inr ks"
  then have "length ks = card (set (map py_key vs))" by (simp add: length_py_set)
  then show ?thesis
    using card_distinct [of "map py_key vs"] distinct_card [of "map py_key vs"] by auto
qed

text \<open>What a normal return of \<^verbatim>\<open>upload_images\<close> and of \<^verbatim>\<open>process_images\<close> says
  about the parts it was computed from.\<close>

lemma upload_images_returns:
  assumes "fst (upload_images env fs ctx epochs share) = Inr (rs, es, t)"
  shows "\<exists>balances sui wal.
           get_sui_balances env = Inr balances \<and> get_balances balances = Inr (sui, wal)
           \<and> \<not> float_is_zero sui \<and> \<not> float_le sui (Finite 0) \<and> \<not> float_is_zero wal
           \<and> snd (upload_images env fs ctx epochs share)
               = upload_loop env ctx epochs share
                   \<lparr>wal_available = wal, results = [], errors = [], files = fs, stored = []\<rparr>
                   (image_paths env)
           \<and> rs = results (snd (upload_images env fs ctx epochs share))
           \<and> es = errors (snd (upload_images env fs ctx epochs share))
           \<and> upload_summary rs sui wal = Inr t"
  using assms
  by (auto simp: upload_images_def Let_def split: sum.splits prod.splits if_splits)

lemma upload_summary_returns:
  assumes "upload_summary rs sui wal = Inr t"
  obtains total ids where
    "py_sum (map r_size rs) = Inr total" "py_set (map r_blobId rs) = Inr ids"
    "unencoded t = total" "encoded t = total" "totalBlobIds t = length rs"
    "uniqueBlobIds t = length ids"
    "duplicateBlobIds t = int (length rs) - int (length ids)"
    "hasDuplicates t = (length rs \<noteq> length ids)"
  using assms
  by (auto simp: upload_summary_def split: sum.splits)

lemma process_images_returns:
  assumes "fst (process_images env fs ctx epochs share resume fresh workers verify clean) = Inr (rs, es, t)"
  obtains outcomes fs2 d where
    "\<not> bad_workers workers"
    "simulate_all env ctx epochs share
       (select_tasks resume (if fresh then fs - json_paths env else fs) (image_paths env))
       (if fresh then fs - json_paths env else fs) = (outcomes, fs2)"
    "split_outcomes outcomes = (rs, es)"
    "count_duplicates verify rs = Inr d"
    "simulate_summary rs d = Inr t"
    "snd (process_images env fs ctx epochs share resume fresh workers verify clean)
       = (if clean then fs2 - json_paths env else fs2)"
  using assms
  by (auto simp: process_images_def Let_def split: sum.splits prod.splits if_splits)

lemma simulate_summary_returns:
  assumes "simulate_summary rs d = Inr t"
  obtains ids where
    "py_set (map s_blobId rs) = Inr ids"
    "totalBlobIds t = length rs" "uniqueBlobIds t = length ids"
    "duplicateBlobIds t = d" "hasDuplicates t = (d > 0)"
  using assms
  by (auto simp: simulate_summary_def split: sum.splits)

text \<open>The simulate path: outcomes and markers, item by item.\<close>

lemma simulate_image_eq:
  "simulate_image env p ctx epochs share fs =
     (sim_outcome env ctx epochs share p,
      if isl (sim_outcome env ctx epochs share p) then fs else insert (with_suffix p ''.json'') fs)"
  by (simp add: sim_outcome_def simulate_image_def split: sum.splits)

lemma sim_outcome_path:
  "case sim_outcome env ctx epochs share p of
     Inl e \<Rightarrow> e_image e = path_str p
   | Inr r \<Rightarrow> s_img_path r = path_str p"
  by (auto simp: sim_outcome_def simulate_image_def simulated_entry_def split: sum.splits)

lemma simulate_all_eq:
  "simulate_all env ctx epochs share ps fs =
     (map (sim_outcome env ctx epochs share) ps,
      fs \<union> (\<lambda>p. with_suffix p ''.json'') ` {p \<in> set ps. \<not> isl (sim_outcome env ctx epochs share p)})"
  by (induction ps arbitrary: fs) (auto simp: simulate_image_eq)

lemma split_outcomes_length:
  "split_outcomes outcomes = (rs, es) \<Longrightarrow> length rs + length es = length outcomes"
  by (induction outcomes arbitrary: rs es) (auto split: prod.splits sum.splits)

lemma select_tasks_fresh_resume: "select_tasks True (fs - json_paths env) (image_paths env) = []"
  by (auto simp: select_tasks_def json_paths_def filter_empty_conv)

text \<open>The upload path: each pass of the loop appends to exactly one of the two lists.\<close>

lemma stored_entry_name: "stored_entry real_info p = Inr r \<Longrightarrow> r_name r = path_name p"
  by (auto simp: stored_entry_def split: sum.splits)

lemma upload_item_cases:
  "(\<exists>r. r_name r = path_name p
        \<and> results (upload_item env ctx epochs share st p) = results st @ [r]
        \<and> errors (upload_item env ctx epochs share st p) = errors st)
   \<or> (\<exists>e. e_image e = path_str p
        \<and> results (upload_item env ctx epochs share st p) = results st
        \<and> errors (upload_item env ctx epochs share st p) = errors st @ [e])"
  by (auto simp: upload_item_def record_error_def Let_def stored_entry_name split: sum.splits)

lemma upload_loop_outcomes:
  "\<exists>outcomes.
     list_all2 (\<lambda>p out. case out of Inl e \<Rightarrow> e_image e = path_str p
                                  | Inr r \<Rightarrow> r_name r = path_name p) ps outcomes
     \<and> results (upload_loop env ctx epochs share st ps) = results st @ fst (split_outcomes outcomes)
     \<and> errors (upload_loop env ctx epochs share st ps) = errors st @ snd (split_outcomes outcomes)"
proof (induction ps arbitrary: st)
  case Nil
  show ?case by simp
next
  case (Cons p ps)
  let ?st1 = "upload_item env ctx epochs share st p"
  from Cons.IH [of ?st1] obtain outcomes where
    rel: "list_all2 (\<lambda>p out. case out of Inl e \<Rightarrow> e_image e = path_str p
                                       | Inr r \<Rightarrow> r_name r = path_name p) ps outcomes"
    and rs: "results (upload_loop env ctx epochs share ?st1 ps)
               = results ?st1 @ fst (split_outcomes outcomes)"
    and es: "errors (upload_loop env ctx epochs share ?st1 ps)
               = errors ?st1 @ snd (split_outcomes outcomes)"
    by blast
  from upload_item_cases [of p env ctx epochs share st]
  obtain out where
    "case out of Inl e \<Rightarrow> e_image e = path_str p | Inr r \<Rightarrow> r_name r = path_name p"
    "results ?st1 = results st @ fst (split_outcomes [out])"
    "errors ?st1 = errors st @ snd (split_outcomes [out])"
  proof (elim disjE exE conjE)
    fix r assume "r_name r = path_name p" "results ?st1 = results st @ [r]" "errors ?st1 = errors st"
    then show thesis by (intro that [of "Inr r"]) simp_all
  next
    fix e assume "e_image e = path_str p" "results ?st1 = results st" "errors ?st1 = errors st @ [e]"
    then show thesis by (intro that [of "Inl e"]) simp_all
  qed
  with rel rs es show ?case
    by (intro exI [of _ "out # outcomes"]) (auto split: prod.splits sum.splits)
qed

text \<open>The upload path: the items for which the real store is run.\<close>

lemma upload_item_stored:
  assumes "estimate_cost env p ctx epochs share = Inr c"
  shows "stored (upload_item env ctx epochs share st p)
           = (if float_lt (wal_available st) c then stored st else stored st @ [p])"
    and "wal_available (upload_item env ctx epochs share st p)
           = (if float_lt (wal_available st) c \<or> \<not> store_succeeds env ctx epochs share p
              then wal_available st else float_sub (wal_available st) c)"
  using assms
  by (auto simp: upload_item_def record_error_def Let_def store_succeeds_def split: sum.splits)

lemma upload_loop_stored:
  "\<forall>p \<in> set ps. estimate_cost env p ctx epochs share = Inr (c p) \<Longrightarrow>
   stored (upload_loop env ctx epochs share st ps)
     = stored st @ admit c (store_succeeds env ctx epochs share) (wal_available st) ps"
proof (induction ps arbitrary: st)
  case Nil
  show ?case by simp
next
  case (Cons p ps)
  from Cons.prems have c: "estimate_cost env p ctx epochs share = Inr (c p)"
    and rest: "\<forall>p \<in> set ps. estimate_cost env p ctx epochs share = Inr (c p)"
    by simp_all
  show ?case
    using Cons.IH [OF rest, of "upload_item env ctx epochs share st p"]
    by (simp add: upload_item_stored [OF c])
qed

lemma admit_subset: "set (admit c ok b ps) \<subseteq> set ps"
  by (induction ps arbitrary: b) auto

lemma admit_head:
  "distinct (p # ps) \<Longrightarrow> p \<in> set (admit c ok b (p # ps)) \<longleftrightarrow> \<not> float_lt b (c p)"
  using admit_subset [of c ok b ps] by auto

lemma admit_tail:
  "distinct (p # ps) \<Longrightarrow> q \<in> set ps \<Longrightarrow>
   q \<in> set (admit c ok b (p # ps))
     \<longleftrightarrow> q \<in> set (admit c ok (if \<not> float_lt b (c p) \<and> ok p then float_sub b (c p) else b) ps)"
  by auto

lemma admit_by_running_balance:
  "distinct ps \<Longrightarrow> i < length ps \<Longrightarrow>
   ps ! i \<in> set (admit c ok b ps)
     \<longleftrightarrow> \<not> float_lt
             (foldl float_sub b
                (map c (filter (\<lambda>q. q \<in> set (admit c ok b ps) \<and> ok q) (take i ps))))
             (c (ps ! i))"
proof (induction ps arbitrary: b i)
  case Nil
  then show ?case by simp
next
  case (Cons p ps)
  show ?case
  proof (cases i)
    case 0
    with admit_head [OF Cons.prems(1)] show ?thesis by simp
  next
    case (Suc j)
    let ?b' = "if \<not> float_lt b (c p) \<and> ok p then float_sub b (c p) else b"
    from Suc Cons.prems have j: "j < length ps" and d: "distinct ps" by simp_all
    have same: "q \<in> set (admit c ok b (p # ps)) \<longleftrightarrow> q \<in> set (admit c ok ?b' ps)"
      if "q \<in> set ps" for q
      using admit_tail [OF Cons.prems(1) that] .
    have filt: "filter (\<lambda>q. q \<in> set (admit c ok b (p # ps)) \<and> ok q) (take j ps)
                  = filter (\<lambda>q. q \<in> set (admit c ok ?b' ps) \<and> ok q) (take j ps)"
    proof (rule filter_cong [OF refl])
      fix q assume "q \<in> set (take j ps)"
      then have "q \<in> set ps" by (rule in_set_takeD)
      from same [OF this]
      show "(q \<in> set (admit c ok b (p # ps)) \<and> ok q) = (q \<in> set (admit c ok ?b' ps) \<and> ok q)"
        by (simp only:)
    qed
    have head: "(p \<in> set (admit c ok b (p # ps)) \<and> ok p) \<longleftrightarrow> (\<not> float_lt b (c p) \<and> ok p)"
      using admit_head [OF Cons.prems(1)] by simp
    have "ps ! j \<in> set (admit c ok b (p # ps)) \<longleftrightarrow> ps ! j \<in> set (admit c ok ?b' ps)"
      using same [of "ps ! j"] j by simp
    also have "\<dots> \<longleftrightarrow> \<not> float_lt
        (foldl float_sub ?b'
           (map c (filter (\<lambda>q. q \<in> set (admit c ok ?b' ps) \<and> ok q) (take j ps))))
        (c (ps ! j))"
      by (rule Cons.IH [OF d j])
    finally show ?thesis
      unfolding Suc using head filt by (simp del: admit.simps)
  qed
qed

lemma admit_in_order:
  "distinct ps \<Longrightarrow> admit c ok b ps = filter (\<lambda>q. q \<in> set (admit c ok b ps)) ps"
proof (induction ps arbitrary: b)
  case Nil
  show ?case by simp
next
  case (Cons p ps)
  let ?b' = "if \<not> float_lt b (c p) \<and> ok p then float_sub b (c p) else b"
  from Cons.prems have d: "distinct ps" by simp
  have "filter (\<lambda>q. q \<in> set (admit c ok b (p # ps))) ps
          = filter (\<lambda>q. q \<in> set (admit c ok ?b' ps)) ps"
  proof (rule filter_cong [OF refl])
    fix q assume "q \<in> set ps"
    from admit_tail [OF Cons.prems this]
    show "(q \<in> set (admit c ok b (p # ps))) = (q \<in> set (admit c ok ?b' ps))" .
  qed
  also have "\<dots> = admit c ok ?b' ps"
    using Cons.IH [OF d, of ?b'] by simp
  finally have tail: "filter (\<lambda>q. q \<in> set (admit c ok b (p # ps))) ps = admit c ok ?b' ps" .
  show ?case
  proof (cases "float_lt b (c p)")
    case True
    with admit_head [OF Cons.prems, of c ok b] tail show ?thesis
      by (simp del: admit.simps) simp
  next
    case False
    with admit_head [OF Cons.prems, of c ok b] tail show ?thesis
      by (simp del: admit.simps) simp
  qed
qed

lemma admitted_eq_admit:
  assumes "get_sui_balances env = Inr balances" and "get_balances balances = Inr (sui, b)"
    and "\<not> float_is_zero sui" and "\<not> float_le sui (Finite 0)" and "\<not> float_is_zero b"
    and "\<forall>p \<in> set (image_paths env). estimate_cost env p ctx epochs share = Inr (c p)"
  shows "stored (snd (upload_images env fs ctx epochs share))
           = admit c (store_succeeds env ctx epochs share) b (image_paths env)"
  using assms(1-5) upload_loop_stored [OF assms(6)]
  by (simp add: upload_images_def Let_def split: sum.splits)

lemma split_outcomes_sets:
  "split_outcomes outcomes = (rs, es) \<Longrightarrow>
   set rs = {r. Inr r \<in> set outcomes} \<and> set es = {e. Inl e \<in> set outcomes}"
  by (induction outcomes arbitrary: rs es) (auto split: prod.splits sum.splits)

lemma select_tasks_default:
  "select_tasks False fs ps = filter (\<lambda>p. with_suffix p ''.json'' \<notin> fs) ps"
  by (simp add: select_tasks_def Let_def cong: filter_cong)

lemma marker_in_json_paths: "p \<in> set (image_paths env) \<Longrightarrow> with_suffix p ''.json'' \<in> json_paths env"
  by (simp add: json_paths_def)

text \<open>The float operations at the amounts of the example worlds.\<close>

lemma div_1e9_0: "div_1e9 0 = Inr (Finite 0)"
  by code_simp

lemma div_1e9_1000000000: "div_1e9 1000000000 = Inr (Finite 1)"
  by code_simp

lemma div_1e9_5000000000: "div_1e9 5000000000 = Inr (Finite 5)"
  by code_simp

lemma div_1e9_100000000000: "div_1e9 100000000000 = Inr (Finite 100)"
  by code_simp

lemma div_1e9_10000000000: "div_1e9 10000000000 = Inr (Finite 10)"
  by code_simp

lemma div_1e9_2000000000: "div_1e9 2000000000 = Inr (Finite 2)"
  by code_simp

lemma div_1e9_4000000000: "div_1e9 4000000000 = Inr (Finite 4)"
  by code_simp

lemma div_1e9_8000000000: "div_1e9 8000000000 = Inr (Finite 8)"
  by code_simp

lemma div_1e9_3000000000: "div_1e9 3000000000 = Inr (Finite 3)"
  by code_simp

lemma div_1e9_300000000: "div_1e9 300000000 = Inr (Finite (5404319552844595 / 18014398509481984))"
  by code_simp

lemma div_1e9_100000000: "div_1e9 100000000 = Inr (Finite (3602879701896397 / 36028797018963968))"
  by code_simp

lemma div_1e9_200000000: "div_1e9 200000000 = Inr (Finite (3602879701896397 / 18014398509481984))"
  by code_simp

lemma float_sub_1: "float_sub (Finite 5) (Finite 1) = Finite 4"
  by code_simp

lemma float_sub_2: "float_sub (Finite 5) (Finite 2) = Finite 3"
  by code_simp

lemma float_sub_3: "float_sub (Finite 3) (Finite 1) = Finite 2"
  by code_simp

lemma float_sub_4: "float_sub (Finite 2) (Finite 1) = Finite 1"
  by code_simp

lemma float_sub_5: "float_sub (Finite 4) (Finite 1) = Finite 3"
  by code_simp

lemma float_sub_6: "float_sub (Finite 100) (Finite 2) = Finite 98"
  by code_simp

lemma float_sub_7: "float_sub (Finite 98) (Finite 4) = Finite 94"
  by code_simp

lemma float_sub_8: "float_sub (Finite 94) (Finite 1) = Finite 93"
  by code_simp

lemma float_sub_9: "float_sub (Finite 93) (Finite 1) = Finite 92"
  by code_simp

lemma float_sub_10:
  "float_sub (Finite (5404319552844595 / 18014398509481984))
     (Finite (3602879701896397 / 36028797018963968))
   = Finite (7205759403792793 / 36028797018963968)"
  by code_simp

lemma float_sub_11:
  "float_sub (Finite (7205759403792793 / 36028797018963968))
     (Finite (3602879701896397 / 36028797018963968))
   = Finite (900719925474099 / 9007199254740992)"
  by code_simp

lemmas float_facts =
  div_1e9_0 div_1e9_1000000000 div_1e9_5000000000 div_1e9_100000000000 div_1e9_10000000000
  div_1e9_2000000000 div_1e9_4000000000 div_1e9_8000000000 div_1e9_3000000000 div_1e9_300000000
  div_1e9_100000000 div_1e9_200000000 float_sub_1 float_sub_2 float_sub_3
  float_sub_4 float_sub_5 float_sub_6 float_sub_7 float_sub_8
  float_sub_9 float_sub_10 float_sub_11
  float_is_zero_def float_le_def

text \<open>The definitions to unfold when a run in an example world is evaluated.\<close>

lemmas world_defs =
  client_def balance_query_def wallet_json_def dry_run_of_def store_of_def
  img_a_def img_b_def img_c_def img_d_def notes_txt_def walrus_cmd_def path_str_def path_name_def
  image_paths_def json_paths_def is_image_def lower_def lower_char_def with_suffix_def

lemmas python_defs =
  py_unpack2_def int_of_string_def strip_def is_space_def digit_of_def py_key_def py_hashable_def
  json_loads_def

lemmas upload_defs =
  upload_images_def get_sui_balances_def get_balances_def coin_balance_def upload_item_def
  estimate_cost_def run_walrus_command_def stored_entry_def record_error_def upload_summary_def

lemmas simulate_defs =
  process_images_def select_tasks_def bad_workers_def simulate_image_def simulated_entry_def
  run_walrus_command_def count_duplicates_def simulate_summary_def

text \<open>The runs of the example worlds, evaluated.\<close>

lemma upload_four_images_rich:
  "fst (upload_images (four_images_env ''100000000000'') {} ''mainnet'' ''max'' False) =
     Inr ([\<lparr>r_name = ''a.png'', r_blobId = JStr ''A'', r_size = JInt 100,
              r_cost = JInt 2000000000, r_sharedBlobObject = JStr []\<rparr>,
           \<lparr>r_name = ''b.PNG'', r_blobId = JStr ''A'', r_size = JInt 100,
              r_cost = JInt 4000000000, r_sharedBlobObject = JStr []\<rparr>,
           \<lparr>r_name = ''c.jpg'', r_blobId = JStr ''B'', r_size = JInt 300,
              r_cost = JInt 1000000000, r_sharedBlobObject = JStr []\<rparr>,
           \<lparr>r_name = ''d.webp'', r_blobId = JStr ''C'', r_size = JInt 400,
              r_cost = JInt 1000000000, r_sharedBlobObject = JStr []\<rparr>],
          [],
          \<lparr>unencoded = 900, encoded = 900, cost = Finite 8, totalBlobIds = 4, uniqueBlobIds = 3,
             duplicateBlobIds = 1, hasDuplicates = True,
             wallet = \<lparr>sui_balance = Finite 1, wal_balance = Finite 100\<rparr>\<rparr>)"
  by (simp add: four_images_env_def world_defs python_defs upload_defs float_facts)

lemma simulate_four_images:
  "fst (process_images (four_images_env ''5000000000'') {} ''mainnet'' ''max'' False False False
          None verify False) =
     Inr ([\<lparr>s_img_path = ''images/a.png'', s_blobId = JStr ''A'', s_unencodedSize = JInt 100,
              s_encodedSize = JInt 6400, s_storageCost = JInt 2000000000,
              s_encodingType = JStr ''RS2''\<rparr>,
           \<lparr>s_img_path = ''images/b.PNG'', s_blobId = JStr ''A'', s_unencodedSize = JInt 100,
              s_encodedSize = JInt 6400, s_storageCost = JInt 4000000000,
              s_encodingType = JStr ''RS2''\<rparr>,
           \<lparr>s_img_path = ''images/c.jpg'', s_blobId = JStr ''B'', s_unencodedSize = JInt 300,
              s_encodedSize = JInt 19200, s_storageCost = JInt 1000000000,
              s_encodingType = JStr ''RS2''\<rparr>,
           \<lparr>s_img_path = ''images/d.webp'', s_blobId = JStr ''C'', s_unencodedSize = JInt 400,
              s_encodedSize = JInt 25600, s_storageCost = JInt 1000000000,
              s_encodingType = JStr ''RS2''\<rparr>],
          [],
          \<lparr>unencoded = 900, encoded = 57600, cost = 8000000000, totalBlobIds = 4,
             uniqueBlobIds = 3, duplicateBlobIds = (if verify then 1 else 0),
             hasDuplicates = verify\<rparr>)"
  by (simp add: four_images_env_def world_defs python_defs simulate_defs)

lemma simulate_one_failing:
  "process_images one_failing_env {} ''mainnet'' ''max'' False False False None verify False =
     (Inr ([\<lparr>s_img_path = ''images/a.png'', s_blobId = JStr ''A'', s_unencodedSize = JInt 100,
              s_encodedSize = JInt 6400, s_storageCost = JInt 1000000000,
              s_encodingType = JStr ''RS2''\<rparr>],
           [\<lparr>e_image = ''images/b.PNG'', e_error = JSONDecodeError\<rparr>],
           \<lparr>unencoded = 100, encoded = 6400, cost = 1000000000, totalBlobIds = 1,
              uniqueBlobIds = 1, duplicateBlobIds = 0, hasDuplicates = False\<rparr>),
      {Path ''images'' ''a'' ''.json''})"
  by (simp add: one_failing_env_def world_defs python_defs simulate_defs)

lemma upload_four_images_poor:
  "upload_images (four_images_env ''5000000000'') {} ''mainnet'' ''max'' False =
     (Inr ([\<lparr>r_name = ''a.png'', r_blobId = JStr ''A'', r_size = JInt 100,
               r_cost = JInt 2000000000, r_sharedBlobObject = JStr []\<rparr>,
            \<lparr>r_name = ''c.jpg'', r_blobId = JStr ''B'', r_size = JInt 300,
               r_cost = JInt 1000000000, r_sharedBlobObject = JStr []\<rparr>,
            \<lparr>r_name = ''d.webp'', r_blobId = JStr ''C'', r_size = JInt 400,
               r_cost = JInt 1000000000, r_sharedBlobObject = JStr []\<rparr>],
           [\<lparr>e_image = ''images/b.PNG'',
               e_error = RuntimeError ''Not enough WAL balance to store b.PNG''\<rparr>],
           \<lparr>unencoded = 800, encoded = 800, cost = Finite 4, totalBlobIds = 3, uniqueBlobIds = 3,
              duplicateBlobIds = 0, hasDuplicates = False,
              wallet = \<lparr>sui_balance = Finite 1, wal_balance = Finite 5\<rparr>\<rparr>),
      \<lparr>wal_available = Finite 1,
         results =
           [\<lparr>r_name = ''a.png'', r_blobId = JStr ''A'', r_size = JInt 100,
               r_cost = JInt 2000000000, r_sharedBlobObject = JStr []\<rparr>,
            \<lparr>r_name = ''c.jpg'', r_blobId = JStr ''B'', r_size = JInt 300,
               r_cost = JInt 1000000000, r_sharedBlobObject = JStr []\<rparr>,
            \<lparr>r_name = ''d.webp'', r_blobId = JStr ''C'', r_size = JInt 400,
               r_cost = JInt 1000000000, r_sharedBlobObject = JStr []\<rparr>],
         errors =
           [\<lparr>e_image = ''images/b.PNG'',
               e_error = RuntimeError ''Not enough WAL balance to store b.PNG''\<rparr>],
         files = {Path ''images'' ''d.stored'' ''.json'', Path ''images'' ''c.stored'' ''.json'',
                  Path ''images'' ''a.stored'' ''.json''},
         stored = [img_a, img_c, img_d]\<rparr>)"
  by (simp add: four_images_env_def world_defs python_defs upload_defs float_facts)

lemma image_paths_four: "image_paths (four_images_env wal) = [img_a, img_b, img_c, img_d]"
  by (simp add: four_images_env_def world_defs)

lemma image_paths_one_failing: "image_paths one_failing_env = [img_a, img_b]"
  by (simp add: one_failing_env_def world_defs)

lemma image_paths_two: "image_paths two_images_env = [img_a, img_b]"
  by (simp add: two_images_env_def world_defs)

lemma wallet_two: "get_sui_balances two_images_env = Inr (wallet_json ''1000000000'' ''5000000000'')"
  by (simp add: two_images_env_def world_defs get_sui_balances_def json_loads_def)

lemma wallet_four: "get_sui_balances (four_images_env wal) = Inr (wallet_json ''1000000000'' wal)"
  by (simp add: four_images_env_def world_defs get_sui_balances_def json_loads_def)

lemma balances_1_5:
  "get_balances (wallet_json ''1000000000'' ''5000000000'') = Inr (Finite 1, Finite 5)"
  by (simp add: wallet_json_def get_balances_def coin_balance_def python_defs float_facts)

lemma costs_two:
  "estimate_cost two_images_env img_a ''mainnet'' ''max'' False = Inr (Finite 10)"
  "estimate_cost two_images_env img_b ''mainnet'' ''max'' False = Inr (Finite 1)"
  by (simp_all add: two_images_env_def world_defs estimate_cost_def run_walrus_command_def
        json_loads_def float_facts)

lemma stored_two: "stored (snd (upload_images two_images_env {} ''mainnet'' ''max'' False)) = [img_b]"
  by (simp add: two_images_env_def world_defs python_defs upload_defs float_facts)

lemma costs_four:
  "estimate_cost (four_images_env wal) img_a ''mainnet'' ''max'' False = Inr (Finite 2)"
  "estimate_cost (four_images_env wal) img_b ''mainnet'' ''max'' False = Inr (Finite 4)"
  "estimate_cost (four_images_env wal) img_c ''mainnet'' ''max'' False = Inr (Finite 1)"
  "estimate_cost (four_images_env wal) img_d ''mainnet'' ''max'' False = Inr (Finite 1)"
  by (simp_all add: four_images_env_def world_defs estimate_cost_def run_walrus_command_def
        json_loads_def float_facts)

lemma stores_four:
  "store_succeeds (four_images_env wal) ''mainnet'' ''max'' False img_a"
  "store_succeeds (four_images_env wal) ''mainnet'' ''max'' False img_b"
  "store_succeeds (four_images_env wal) ''mainnet'' ''max'' False img_c"
  "store_succeeds (four_images_env wal) ''mainnet'' ''max'' False img_d"
  by (simp_all add: four_images_env_def world_defs store_succeeds_def run_walrus_command_def
        json_loads_def stored_entry_def)

lemma image_paths_three: "image_paths three_tenths_env = [img_a, img_b, img_c]"
  by (simp add: three_tenths_env_def world_defs)

lemma wallet_three:
  "get_sui_balances three_tenths_env = Inr (wallet_json ''1000000000'' ''300000000'')"
  by (simp add: three_tenths_env_def world_defs get_sui_balances_def json_loads_def)

lemma balances_three_tenths:
  "get_balances (wallet_json ''1000000000'' ''300000000'')
     = Inr (Finite 1, Finite (5404319552844595 / 18014398509481984))"
  by (simp add: wallet_json_def get_balances_def coin_balance_def python_defs float_facts)

lemma costs_three:
  "estimate_cost three_tenths_env img_a ''mainnet'' ''max'' False
     = Inr (Finite (3602879701896397 / 36028797018963968))"
  "estimate_cost three_tenths_env img_b ''mainnet'' ''max'' False
     = Inr (Finite (3602879701896397 / 36028797018963968))"
  "estimate_cost three_tenths_env img_c ''mainnet'' ''max'' False
     = Inr (Finite (3602879701896397 / 36028797018963968))"
  by (simp_all add: three_tenths_env_def world_defs estimate_cost_def run_walrus_command_def
        json_loads_def float_facts)

lemma stores_three:
  "store_succeeds three_tenths_env ''mainnet'' ''max'' False img_a"
  "store_succeeds three_tenths_env ''mainnet'' ''max'' False img_b"
  "store_succeeds three_tenths_env ''mainnet'' ''max'' False img_c"
  by (simp_all add: three_tenths_env_def world_defs store_succeeds_def run_walrus_command_def
        json_loads_def stored_entry_def)

lemma image_paths_string_cost: "image_paths string_cost_env = [img_a, img_b]"
  by (simp add: string_cost_env_def world_defs)

lemma upload_string_cost:
  "upload_images string_cost_env {} ''mainnet'' ''max'' False =
     (Inl TypeError,
      \<lparr>wal_available = Finite 3,
         results =
           [\<lparr>r_name = ''a.png'', r_blobId = JStr ''A'', r_size = JInt 100,
               r_cost = JStr ''1000000000'', r_sharedBlobObject = JStr []\<rparr>,
            \<lparr>r_name = ''b.PNG'', r_blobId = JStr ''B'', r_size = JInt 200,
               r_cost = JStr ''1000000000'', r_sharedBlobObject = JStr []\<rparr>],
         errors = [],
         files = {Path ''images'' ''b.stored'' ''.json'', Path ''images'' ''a.stored'' ''.json''},
         stored = [img_a, img_b]\<rparr>)"
  by (simp add: string_cost_env_def world_defs python_defs upload_defs float_facts)

lemma upload_loop_string_cost:
  "snd (upload_images string_cost_env {} ''mainnet'' ''max'' False) =
     upload_loop string_cost_env ''mainnet'' ''max'' False
       \<lparr>wal_available = Finite 5, results = [], errors = [], files = {}, stored = []\<rparr>
       [img_a, img_b]"
  by (simp add: string_cost_env_def world_defs python_defs upload_defs float_facts)

lemma simulate_all_string_cost:
  "simulate_all string_cost_env ''mainnet'' ''max'' False [img_a, img_b] {} =
     ([Inr \<lparr>s_img_path = ''images/a.png'', s_blobId = JStr ''A'', s_unencodedSize = JInt 100,
             s_encodedSize = JInt 6400, s_storageCost = JStr ''1000000000'',
             s_encodingType = JStr []\<rparr>,
       Inr \<lparr>s_img_path = ''images/b.PNG'', s_blobId = JStr ''B'', s_unencodedSize = JInt 200,
             s_encodedSize = JInt 12800, s_storageCost = JStr ''1000000000'',
             s_encodingType = JStr []\<rparr>],
      {Path ''images'' ''b'' ''.json'', Path ''images'' ''a'' ''.json''})"
  by (simp add: string_cost_env_def world_defs python_defs simulate_defs)

lemma simulate_string_cost:
  "fst (process_images string_cost_env {} ''mainnet'' ''max'' False False False None False False)
     = Inl TypeError"
  by (simp add: string_cost_env_def world_defs python_defs simulate_defs)

lemma images_distinct: "distinct [img_a, img_b, img_c, img_d]"
  by (simp add: img_a_def img_b_def img_c_def img_d_def)

lemma simulate_two_images_clean:
  "process_images two_images_env {} ''mainnet'' ''max'' False False False None False True =
     (Inr ([\<lparr>s_img_path = ''images/a.png'', s_blobId = JStr ''A'', s_unencodedSize = JInt 100,
              s_encodedSize = JInt 6400, s_storageCost = JInt 10000000000,
              s_encodingType = JStr ''RS2''\<rparr>,
           \<lparr>s_img_path = ''images/b.PNG'', s_blobId = JStr ''B'', s_unencodedSize = JInt 200,
              s_encodedSize = JInt 12800, s_storageCost = JInt 1000000000,
              s_encodingType = JStr ''RS2''\<rparr>],
           [],
           \<lparr>unencoded = 300, encoded = 19200, cost = 11000000000, totalBlobIds = 2,
              uniqueBlobIds = 2, duplicateBlobIds = 0, hasDuplicates = False\<rparr>),
      {})"
  by (simp add: two_images_env_def world_defs python_defs simulate_defs)

section \<open>The external client wrapper: exit status and output shape\<close>

text \<open>
  C4 (as stated, refuted). The claim has the wrapper raise whenever the process exits
  non-zero and whenever the top-level array of records is absent. The source calls
  \<^verbatim>\<open>subprocess.run\<close> without \<^verbatim>\<open>check=True\<close> and never reads
  \<^verbatim>\<open>returncode\<close>: a process that exits with status 1 after printing a JSON array
  has its first element returned. Nor is the shape checked: a top-level JSON string
  yields its first character.
\<close>

theorem run_walrus_command_nonzero_exit_counterexample:
  "returncode (subprocess_run failing_exit_env
       (walrus_cmd (Path ''images'' ''a'' ''.png'') ''mainnet'' ''max'' False True)) = 1
   \<and> run_walrus_command failing_exit_env (Path ''images'' ''a'' ''.png'') ''mainnet'' ''max'' False True
       = Inr (JObj [(''blobId'', JStr ''b1'')])
   \<and> run_walrus_command string_output_env (Path ''images'' ''a'' ''.png'') ''mainnet'' ''max'' False True
       = Inr (JStr ''o'')"
  by (simp add: run_walrus_command_def failing_exit_env_def string_output_env_def json_loads_def)

text \<open>
  C4 (amended). The exit status has no influence on the wrapper. It raises exactly when
  the standard output is not well-formed JSON (\<^verbatim>\<open>JSONDecodeError\<close>), is an empty
  array or an empty string (\<^verbatim>\<open>IndexError\<close>), is an object (\<^verbatim>\<open>KeyError\<close>), or is
  a number, a boolean or null (\<^verbatim>\<open>TypeError\<close>); otherwise it returns the first element
  of the top-level array, whatever that element is, or the first character of a
  top-level string.
\<close>

theorem run_walrus_command_outcome:
  "run_walrus_command
      (env\<lparr>subprocess_run := (\<lambda>cmd. (subprocess_run env cmd)\<lparr>returncode := rc cmd\<rparr>)\<rparr>)
      image_path ctx epochs share dry_run
     = run_walrus_command env image_path ctx epochs share dry_run
   \<and> run_walrus_command env image_path ctx epochs share dry_run
     = (case stdout (subprocess_run env (walrus_cmd image_path ctx epochs share dry_run)) of
          None \<Rightarrow> Inl JSONDecodeError
        | Some (JArr []) \<Rightarrow> Inl IndexError
        | Some (JArr (x # xs)) \<Rightarrow> Inr x
        | Some (JStr []) \<Rightarrow> Inl IndexError
        | Some (JStr (c # cs)) \<Rightarrow> Inr (JStr [c])
        | Some (JObj kvs) \<Rightarrow> Inl KeyError
        | Some JNull \<Rightarrow> Inl TypeError
        | Some (JBool b) \<Rightarrow> Inl TypeError
        | Some (JInt n) \<Rightarrow> Inl TypeError)"
  by (simp add: run_walrus_command_def json_loads_def split: option.split json.split list.split)

section \<open>Run totals\<close>

text \<open>
  C7. In the totals the duplicate count is the number of results minus the number of
  distinct blob identifiers, and \<open>hasDuplicates\<close> holds exactly when that count is
  positive. The upload path always computes it; the simulate path computes it only when
  \<open>verify\<close> is set and reports 0 (and no duplicates) otherwise, whatever the results
  hold. Distinct is what a Python set makes of the identifiers (\<open>py_key\<close>: for
  strings, the identifier itself). The witness runs the four images with the identifiers
  A, A, B, C: 3 unique, 1 duplicate.
\<close>

theorem duplicate_accounting:
  "(fst (upload_images env fs ctx epochs share) = Inr (rs, es, t) \<longrightarrow>
      uniqueBlobIds t = card (py_key ` r_blobId ` set rs)
      \<and> duplicateBlobIds t = int (length rs) - int (uniqueBlobIds t)
      \<and> hasDuplicates t = (0 < duplicateBlobIds t))
   \<and> (fst (process_images env' fs' ctx' epochs' share' resume fresh workers verify clean)
         = Inr (rs', es', t') \<longrightarrow>
      duplicateBlobIds t' =
        (if verify then int (length rs') - int (card (py_key ` s_blobId ` set rs')) else 0)
      \<and> hasDuplicates t' = (0 < duplicateBlobIds t'))"
proof (intro conjI impI)
  assume up: "fst (upload_images env fs ctx epochs share) = Inr (rs, es, t)"
  from upload_images_returns [OF up] obtain sui wal where "upload_summary rs sui wal = Inr t"
    by blast
  then obtain ids where ids: "py_set (map r_blobId rs) = Inr ids"
    and u: "uniqueBlobIds t = length ids"
    and d: "duplicateBlobIds t = int (length rs) - int (length ids)"
    and h: "hasDuplicates t = (length rs \<noteq> length ids)"
    by (rule upload_summary_returns)
  from length_py_set [OF ids] u show "uniqueBlobIds t = card (py_key ` r_blobId ` set rs)"
    by (simp add: image_image)
  from d u show "duplicateBlobIds t = int (length rs) - int (uniqueBlobIds t)"
    by simp
  from length_py_set_le [OF ids] d h show "hasDuplicates t = (0 < duplicateBlobIds t)"
    by auto
next
  assume sim: "fst (process_images env' fs' ctx' epochs' share' resume fresh workers verify clean)
                 = Inr (rs', es', t')"
  from sim obtain dup where c: "count_duplicates verify rs' = Inr dup"
    and s: "simulate_summary rs' dup = Inr t'"
    by (rule process_images_returns)
  from s have d: "duplicateBlobIds t' = dup" and h: "hasDuplicates t' = (0 < dup)"
    by (auto elim: simulate_summary_returns)
  from c have "dup = (if verify then int (length rs') - int (card (py_key ` s_blobId ` set rs')) else 0)"
    by (auto simp: count_duplicates_def image_image split: sum.splits if_splits
             dest!: length_py_set)
  with d show "duplicateBlobIds t' =
                 (if verify then int (length rs') - int (card (py_key ` s_blobId ` set rs')) else 0)"
    by simp
  from d h show "hasDuplicates t' = (0 < duplicateBlobIds t')"
    by simp
qed

text \<open>Witness for C7: identifiers A, A, B, C on the upload path, on the simulate path
  with \<open>verify\<close>, and on the simulate path without it.\<close>

theorem duplicate_accounting_witness:
  "(\<exists>rs es t.
      fst (upload_images (four_images_env ''100000000000'') {} ''mainnet'' ''max'' False)
        = Inr (rs, es, t)
      \<and> map r_blobId rs = [JStr ''A'', JStr ''A'', JStr ''B'', JStr ''C'']
      \<and> uniqueBlobIds t = 3 \<and> duplicateBlobIds t = 1 \<and> hasDuplicates t)
   \<and> (\<exists>rs es t.
      fst (process_images (four_images_env ''5000000000'') {} ''mainnet'' ''max'' False False False
             None True False) = Inr (rs, es, t)
      \<and> map s_blobId rs = [JStr ''A'', JStr ''A'', JStr ''B'', JStr ''C'']
      \<and> uniqueBlobIds t = 3 \<and> duplicateBlobIds t = 1 \<and> hasDuplicates t)
   \<and> (\<exists>rs es t.
      fst (process_images (four_images_env ''5000000000'') {} ''mainnet'' ''max'' False False False
             None False False) = Inr (rs, es, t)
      \<and> map s_blobId rs = [JStr ''A'', JStr ''A'', JStr ''B'', JStr ''C'']
      \<and> duplicateBlobIds t = 0 \<and> \<not> hasDuplicates t)"
  using upload_four_images_rich
    simulate_four_images [of True] simulate_four_images [of False]
    duplicate_accounting [THEN conjunct1, rule_format, OF upload_four_images_rich]
    duplicate_accounting [THEN conjunct2, rule_format, OF simulate_four_images [of True]]
    duplicate_accounting [THEN conjunct2, rule_format, OF simulate_four_images [of False]]
  by simp

text \<open>
  C9. On the simulate path \<open>uniqueBlobIds\<close> is the count of distinct blob identifiers
  of the results whether \<open>verify\<close> is set or not. So when duplicates exist and
  \<open>verify\<close> is off, \<open>totalBlobIds - uniqueBlobIds\<close> is positive while
  \<open>duplicateBlobIds\<close> is 0 and \<open>hasDuplicates\<close> is false.
\<close>

theorem unique_count_not_gated_by_verify:
  assumes "fst (process_images env fs ctx epochs share resume fresh workers verify clean)
             = Inr (rs, es, t)"
  shows "uniqueBlobIds t = card (py_key ` s_blobId ` set rs)
         \<and> totalBlobIds t = length rs
         \<and> (\<not> verify \<and> \<not> distinct (map (\<lambda>r. py_key (s_blobId r)) rs) \<longrightarrow>
              0 < int (totalBlobIds t) - int (uniqueBlobIds t)
              \<and> duplicateBlobIds t = 0 \<and> \<not> hasDuplicates t)"
proof -
  from assms obtain dup where c: "count_duplicates verify rs = Inr dup"
    and s: "simulate_summary rs dup = Inr t"
    by (rule process_images_returns)
  from s obtain ids where ids: "py_set (map s_blobId rs) = Inr ids"
    and tot: "totalBlobIds t = length rs" and u: "uniqueBlobIds t = length ids"
    and d: "duplicateBlobIds t = dup" and h: "hasDuplicates t = (0 < dup)"
    by (rule simulate_summary_returns)
  have card: "uniqueBlobIds t = card (py_key ` s_blobId ` set rs)"
    using length_py_set [OF ids] u by (simp add: image_image)
  have gap: "0 < int (totalBlobIds t) - int (uniqueBlobIds t)"
    if "\<not> distinct (map (\<lambda>r. py_key (s_blobId r)) rs)"
    using that length_py_set_le [OF ids] length_py_set_eq_iff [OF ids] tot u
    by (simp add: comp_def)
  have off: "duplicateBlobIds t = 0 \<and> \<not> hasDuplicates t" if "\<not> verify"
    using that c d h by (simp add: count_duplicates_def)
  from card tot gap off show ?thesis
    by blast
qed

text \<open>Witness for C9: the four images with the identifiers A, A, B, C, \<open>verify\<close> off.\<close>

theorem unique_count_not_gated_by_verify_witness:
  "\<exists>rs es t.
     fst (process_images (four_images_env ''5000000000'') {} ''mainnet'' ''max'' False False False
            None False False) = Inr (rs, es, t)
     \<and> map s_blobId rs = [JStr ''A'', JStr ''A'', JStr ''B'', JStr ''C'']
     \<and> totalBlobIds t = 4 \<and> uniqueBlobIds t = 3
     \<and> duplicateBlobIds t = 0 \<and> \<not> hasDuplicates t"
  using simulate_four_images [of False]
    unique_count_not_gated_by_verify [OF simulate_four_images [of False]]
  by simp

text \<open>
  C10. On the upload path the encoded total of the totals equals the unencoded total:
  both are the sum of the sizes of the results.
\<close>

theorem upload_encoded_is_unencoded:
  assumes "fst (upload_images env fs ctx epochs share) = Inr (rs, es, t)"
  shows "encoded t = unencoded t \<and> py_sum (map r_size rs) = Inr (unencoded t)"
proof -
  from upload_images_returns [OF assms] obtain sui wal where "upload_summary rs sui wal = Inr t"
    by blast
  then show ?thesis
    by (rule upload_summary_returns) simp
qed

text \<open>Witness for C10: the four images, all stored.\<close>

theorem upload_encoded_is_unencoded_witness:
  "\<exists>rs es t.
     fst (upload_images (four_images_env ''100000000000'') {} ''mainnet'' ''max'' False)
       = Inr (rs, es, t)
     \<and> map r_size rs = [JInt 100, JInt 100, JInt 300, JInt 400]
     \<and> encoded t = 900 \<and> unencoded t = 900"
  using upload_four_images_rich upload_encoded_is_unencoded [OF upload_four_images_rich]
  by simp

section \<open>Outcomes and selection\<close>

text \<open>
  C3. On both paths every selected item yields exactly one outcome. The two lists are
  built by the loops (lines 131-138 over the tasks, lines 68-92 over the candidate
  images), and the statement is about the loops, whatever follows them: for any tasks
  and any files, the outcomes of the simulate pool are one per task, in order, each the
  result or the error entry of its task, and the two lists they are split into have
  together as many entries as there are tasks; for any items and any state, the upload
  loop extends the results and the errors by the two sides of one list of outcomes, one
  per item, in order, each the result or the error entry of its item, so that the two
  lists grow together by the number of items. A call that returns hands back these two
  lists (last two parts); a call that raises while it computes the totals has
  processed every item all the same.
\<close>

theorem one_outcome_per_selected_item:
  "(let outcomes = fst (simulate_all env ctx epochs share tasks fs)
    in list_all2 (\<lambda>p out. case out of Inl e \<Rightarrow> e_image e = path_str p
                                    | Inr r \<Rightarrow> s_img_path r = path_str p) tasks outcomes
       \<and> length (fst (split_outcomes outcomes)) + length (snd (split_outcomes outcomes))
           = length tasks)
   \<and> (\<exists>outcomes.
         list_all2 (\<lambda>p out. case out of Inl e \<Rightarrow> e_image e = path_str p
                                      | Inr r \<Rightarrow> r_name r = path_name p) items outcomes
         \<and> results (upload_loop env' ctx' epochs' share' st items)
             = results st @ fst (split_outcomes outcomes)
         \<and> errors (upload_loop env' ctx' epochs' share' st items)
             = errors st @ snd (split_outcomes outcomes))
   \<and> length (results (upload_loop env' ctx' epochs' share' st items))
       + length (errors (upload_loop env' ctx' epochs' share' st items))
       = length (results st) + length (errors st) + length items
   \<and> (fst (process_images env fs ctx epochs share resume fresh workers verify clean)
       = Inr (rs, es, t) \<longrightarrow>
      (\<exists>outcomes.
         list_all2 (\<lambda>p out. case out of Inl e \<Rightarrow> e_image e = path_str p
                                      | Inr r \<Rightarrow> s_img_path r = path_str p)
           (select_tasks resume (if fresh then fs - json_paths env else fs) (image_paths env))
           outcomes
         \<and> split_outcomes outcomes = (rs, es))
      \<and> length rs + length es
          = length (select_tasks resume (if fresh then fs - json_paths env else fs)
                      (image_paths env)))
   \<and> (fst (upload_images env' fs' ctx' epochs' share') = Inr (rs', es', t') \<longrightarrow>
      (\<exists>outcomes.
         list_all2 (\<lambda>p out. case out of Inl e \<Rightarrow> e_image e = path_str p
                                      | Inr r \<Rightarrow> r_name r = path_name p)
           (image_paths env') outcomes
         \<and> split_outcomes outcomes = (rs', es'))
      \<and> length rs' + length es' = length (image_paths env'))"
proof -
  have sim_rel: "list_all2 (\<lambda>p out. case out of Inl e \<Rightarrow> e_image e = path_str p
                                              | Inr r \<Rightarrow> s_img_path r = path_str p)
                   ps (map (sim_outcome env ctx epochs share) ps)" for ps
    unfolding list_all2_map2 by (rule list_all2_refl) (rule sim_outcome_path)
  have split_len: "length (fst (split_outcomes outs)) + length (snd (split_outcomes outs))
                     = length outs" for outs :: "(item_error + 'r) list"
    using split_outcomes_length [of outs "fst (split_outcomes outs)" "snd (split_outcomes outs)"]
    by simp
  have loop_sim: "let outcomes = fst (simulate_all env ctx epochs share tasks fs)
    in list_all2 (\<lambda>p out. case out of Inl e \<Rightarrow> e_image e = path_str p
                                    | Inr r \<Rightarrow> s_img_path r = path_str p) tasks outcomes
       \<and> length (fst (split_outcomes outcomes)) + length (snd (split_outcomes outcomes))
           = length tasks"
    using sim_rel [of tasks] split_len [of "map (sim_outcome env ctx epochs share) tasks"]
    by (simp add: simulate_all_eq)
  have loop_up: "\<exists>outcomes.
         list_all2 (\<lambda>p out. case out of Inl e \<Rightarrow> e_image e = path_str p
                                      | Inr r \<Rightarrow> r_name r = path_name p) items outcomes
         \<and> results (upload_loop env' ctx' epochs' share' st items)
             = results st @ fst (split_outcomes outcomes)
         \<and> errors (upload_loop env' ctx' epochs' share' st items)
             = errors st @ snd (split_outcomes outcomes)"
    by (rule upload_loop_outcomes)
  then obtain outs where
    rel: "list_all2 (\<lambda>p out. case out of Inl e \<Rightarrow> e_image e = path_str p
                                       | Inr r \<Rightarrow> r_name r = path_name p) items outs"
    and rs_eq: "results (upload_loop env' ctx' epochs' share' st items)
                  = results st @ fst (split_outcomes outs)"
    and es_eq: "errors (upload_loop env' ctx' epochs' share' st items)
                  = errors st @ snd (split_outcomes outs)"
    by blast
  have loop_len: "length (results (upload_loop env' ctx' epochs' share' st items))
       + length (errors (upload_loop env' ctx' epochs' share' st items))
       = length (results st) + length (errors st) + length items"
    using split_len [of outs] list_all2_lengthD [OF rel] by (simp add: rs_eq es_eq)
  have call_sim: "(\<exists>outcomes.
         list_all2 (\<lambda>p out. case out of Inl e \<Rightarrow> e_image e = path_str p
                                      | Inr r \<Rightarrow> s_img_path r = path_str p)
           (select_tasks resume (if fresh then fs - json_paths env else fs) (image_paths env))
           outcomes
         \<and> split_outcomes outcomes = (rs, es))
      \<and> length rs + length es
          = length (select_tasks resume (if fresh then fs - json_paths env else fs)
                      (image_paths env))"
    if "fst (process_images env fs ctx epochs share resume fresh workers verify clean)
          = Inr (rs, es, t)"
  proof -
    let ?tasks = "select_tasks resume (if fresh then fs - json_paths env else fs)
                    (image_paths env)"
    from that obtain outcomes fs2 where
      run: "simulate_all env ctx epochs share ?tasks (if fresh then fs - json_paths env else fs)
              = (outcomes, fs2)"
      and split: "split_outcomes outcomes = (rs, es)"
      by (rule process_images_returns)
    from run have outcomes: "outcomes = map (sim_outcome env ctx epochs share) ?tasks"
      by (simp add: simulate_all_eq)
    from sim_rel [of ?tasks] split split_outcomes_length [OF split] outcomes
    show ?thesis
      by auto
  qed
  have call_up: "(\<exists>outcomes.
         list_all2 (\<lambda>p out. case out of Inl e \<Rightarrow> e_image e = path_str p
                                      | Inr r \<Rightarrow> r_name r = path_name p)
           (image_paths env') outcomes
         \<and> split_outcomes outcomes = (rs', es'))
      \<and> length rs' + length es' = length (image_paths env')"
    if up: "fst (upload_images env' fs' ctx' epochs' share') = Inr (rs', es', t')"
  proof -
    from upload_images_returns [OF up] obtain wal where
      st: "snd (upload_images env' fs' ctx' epochs' share')
             = upload_loop env' ctx' epochs' share'
                 \<lparr>wal_available = wal, results = [], errors = [], files = fs', stored = []\<rparr>
                 (image_paths env')"
      and rs: "rs' = results (snd (upload_images env' fs' ctx' epochs' share'))"
      and es: "es' = errors (snd (upload_images env' fs' ctx' epochs' share'))"
      by blast
    from upload_loop_outcomes [of "image_paths env'" env' ctx' epochs' share'
        "\<lparr>wal_available = wal, results = [], errors = [], files = fs', stored = []\<rparr>"]
    obtain outcomes where
      rel: "list_all2 (\<lambda>p out. case out of Inl e \<Rightarrow> e_image e = path_str p
                                         | Inr r \<Rightarrow> r_name r = path_name p)
              (image_paths env') outcomes"
      and split: "split_outcomes outcomes = (rs', es')"
      unfolding rs es st by (auto simp: prod_eq_iff)
    from split_outcomes_length [OF split] list_all2_lengthD [OF rel] rel split
    show ?thesis
      by auto
  qed
  show ?thesis
    by (intro conjI impI;
        (rule loop_sim loop_up loop_len
         | erule call_sim [THEN conjunct1] call_sim [THEN conjunct2]
             call_up [THEN conjunct1] call_up [THEN conjunct2]))
qed

text \<open>Witness for C3. Two images whose costs are announced as strings: on both paths
  each image gets its result, and the call raises \<^verbatim>\<open>TypeError\<close> when it adds the costs
  up. Then two calls that return: a simulate run with one success and one failure, an
  upload run with three stored images and one rejected.\<close>

theorem one_outcome_per_selected_item_witness:
  "(fst (process_images string_cost_env {} ''mainnet'' ''max'' False False False None False False)
      = Inl TypeError
    \<and> select_tasks False {} (image_paths string_cost_env) = [img_a, img_b]
    \<and> map (map_sum e_image s_img_path)
          (fst (simulate_all string_cost_env ''mainnet'' ''max'' False [img_a, img_b] {}))
        = [Inr ''images/a.png'', Inr ''images/b.PNG'']
    \<and> length (fst (split_outcomes
                 (fst (simulate_all string_cost_env ''mainnet'' ''max'' False [img_a, img_b] {}))))
        + length (snd (split_outcomes
                 (fst (simulate_all string_cost_env ''mainnet'' ''max'' False [img_a, img_b] {}))))
        = 2)
   \<and> (fst (upload_images string_cost_env {} ''mainnet'' ''max'' False) = Inl TypeError
    \<and> image_paths string_cost_env = [img_a, img_b]
    \<and> map r_name (results (snd (upload_images string_cost_env {} ''mainnet'' ''max'' False)))
        = [''a.png'', ''b.PNG'']
    \<and> errors (snd (upload_images string_cost_env {} ''mainnet'' ''max'' False)) = []
    \<and> length (results (snd (upload_images string_cost_env {} ''mainnet'' ''max'' False)))
        + length (errors (snd (upload_images string_cost_env {} ''mainnet'' ''max'' False)))
        = 2)
   \<and> (\<exists>rs es t.
      fst (process_images one_failing_env {} ''mainnet'' ''max'' False False False None False False)
        = Inr (rs, es, t)
      \<and> select_tasks False {} (image_paths one_failing_env) = [img_a, img_b]
      \<and> map s_img_path rs = [''images/a.png''] \<and> map e_image es = [''images/b.PNG'']
      \<and> length rs + length es = 2)
   \<and> (\<exists>rs es t.
      fst (upload_images (four_images_env ''5000000000'') {} ''mainnet'' ''max'' False)
        = Inr (rs, es, t)
      \<and> image_paths (four_images_env ''5000000000'') = [img_a, img_b, img_c, img_d]
      \<and> map r_name rs = [''a.png'', ''c.jpg'', ''d.webp''] \<and> map e_image es = [''images/b.PNG'']
      \<and> length rs + length es = 4)"
proof -
  have sim: "fst (process_images one_failing_env {} ''mainnet'' ''max'' False False False None
                    False False)
               = Inr ([\<lparr>s_img_path = ''images/a.png'', s_blobId = JStr ''A'',
                         s_unencodedSize = JInt 100, s_encodedSize = JInt 6400,
                         s_storageCost = JInt 1000000000, s_encodingType = JStr ''RS2''\<rparr>],
                      [\<lparr>e_image = ''images/b.PNG'', e_error = JSONDecodeError\<rparr>],
                      \<lparr>unencoded = 100, encoded = 6400, cost = 1000000000, totalBlobIds = 1,
                         uniqueBlobIds = 1, duplicateBlobIds = 0, hasDuplicates = False\<rparr>)"
    by (simp add: simulate_one_failing)
  have up: "fst (upload_images (four_images_env ''5000000000'') {} ''mainnet'' ''max'' False)
              = Inr ([\<lparr>r_name = ''a.png'', r_blobId = JStr ''A'', r_size = JInt 100,
                        r_cost = JInt 2000000000, r_sharedBlobObject = JStr []\<rparr>,
                      \<lparr>r_name = ''c.jpg'', r_blobId = JStr ''B'', r_size = JInt 300,
                        r_cost = JInt 1000000000, r_sharedBlobObject = JStr []\<rparr>,
                      \<lparr>r_name = ''d.webp'', r_blobId = JStr ''C'', r_size = JInt 400,
                        r_cost = JInt 1000000000, r_sharedBlobObject = JStr []\<rparr>],
                     [\<lparr>e_image = ''images/b.PNG'',
                        e_error = RuntimeError ''Not enough WAL balance to store b.PNG''\<rparr>],
                     \<lparr>unencoded = 800, encoded = 800, cost = Finite 4, totalBlobIds = 3,
                        uniqueBlobIds = 3, duplicateBlobIds = 0, hasDuplicates = False,
                        wallet = \<lparr>sui_balance = Finite 1, wal_balance = Finite 5\<rparr>\<rparr>)"
    by (simp add: upload_four_images_poor)
  note loops = one_outcome_per_selected_item
    [where env = string_cost_env and ctx = "''mainnet''" and epochs = "''max''" and share = False
       and tasks = "[img_a, img_b]" and fs = "{}"
       and env' = string_cost_env and ctx' = "''mainnet''" and epochs' = "''max''"
       and share' = False and items = "[img_a, img_b]"
       and st = "\<lparr>wal_available = Finite 5, results = [], errors = [], files = {}, stored = []\<rparr>"]
  from loops [THEN conjunct1]
  have sim_len: "length (fst (split_outcomes
                 (fst (simulate_all string_cost_env ''mainnet'' ''max'' False [img_a, img_b] {}))))
        + length (snd (split_outcomes
                 (fst (simulate_all string_cost_env ''mainnet'' ''max'' False [img_a, img_b] {}))))
        = 2"
    by (simp add: Let_def)
  from loops [THEN conjunct2, THEN conjunct2, THEN conjunct1]
  have up_len: "length (results (snd (upload_images string_cost_env {} ''mainnet'' ''max'' False)))
        + length (errors (snd (upload_images string_cost_env {} ''mainnet'' ''max'' False)))
        = 2"
    by (simp add: upload_loop_string_cost)
  have returning: "(\<exists>rs es t.
      fst (process_images one_failing_env {} ''mainnet'' ''max'' False False False None False False)
        = Inr (rs, es, t)
      \<and> select_tasks False {} (image_paths one_failing_env) = [img_a, img_b]
      \<and> map s_img_path rs = [''images/a.png''] \<and> map e_image es = [''images/b.PNG'']
      \<and> length rs + length es = 2)
   \<and> (\<exists>rs es t.
      fst (upload_images (four_images_env ''5000000000'') {} ''mainnet'' ''max'' False)
        = Inr (rs, es, t)
      \<and> image_paths (four_images_env ''5000000000'') = [img_a, img_b, img_c, img_d]
      \<and> map r_name rs = [''a.png'', ''c.jpg'', ''d.webp''] \<and> map e_image es = [''images/b.PNG'']
      \<and> length rs + length es = 4)"
    using one_outcome_per_selected_item
        [THEN conjunct2, THEN conjunct2, THEN conjunct2, THEN conjunct1, rule_format, OF sim]
      one_outcome_per_selected_item
        [THEN conjunct2, THEN conjunct2, THEN conjunct2, THEN conjunct2, rule_format, OF up]
    unfolding sim up
    by (simp add: image_paths_four image_paths_one_failing select_tasks_def with_suffix_def
          img_a_def img_b_def)
  have raising: "fst (process_images string_cost_env {} ''mainnet'' ''max'' False False False None
                        False False) = Inl TypeError
    \<and> select_tasks False {} (image_paths string_cost_env) = [img_a, img_b]
    \<and> map (map_sum e_image s_img_path)
          (fst (simulate_all string_cost_env ''mainnet'' ''max'' False [img_a, img_b] {}))
        = [Inr ''images/a.png'', Inr ''images/b.PNG'']
    \<and> fst (upload_images string_cost_env {} ''mainnet'' ''max'' False) = Inl TypeError
    \<and> image_paths string_cost_env = [img_a, img_b]
    \<and> map r_name (results (snd (upload_images string_cost_env {} ''mainnet'' ''max'' False)))
        = [''a.png'', ''b.PNG'']
    \<and> errors (snd (upload_images string_cost_env {} ''mainnet'' ''max'' False)) = []"
    unfolding simulate_all_string_cost
    by (simp add: simulate_string_cost upload_string_cost image_paths_string_cost
          select_tasks_def)
  from raising sim_len up_len returning show ?thesis
    by (intro conjI) (elim conjE, assumption)+
qed

text \<open>
  C8. With both \<open>resume\<close> and \<open>fresh\<close> set, the fresh wipe deletes every candidate's
  marker and the resume filter then finds none: no task is selected, and (for a valid
  worker count) the call returns empty results, empty errors and zero totals, leaving
  the files without any candidate's marker.
\<close>

theorem resume_with_fresh_selects_nothing:
  "select_tasks True (fs - json_paths env) (image_paths env) = []
   \<and> (\<not> bad_workers workers \<longrightarrow>
        process_images env fs ctx epochs share True True workers verify clean =
          (Inr ([], [],
                \<lparr>unencoded = 0, encoded = 0, cost = 0, totalBlobIds = 0, uniqueBlobIds = 0,
                   duplicateBlobIds = 0, hasDuplicates = False\<rparr>),
           fs - json_paths env))"
  by (simp add: select_tasks_fresh_resume process_images_def count_duplicates_def
        simulate_summary_def Let_def)

text \<open>Witness for C8: four images, one marker present before the run, two workers.\<close>

theorem resume_with_fresh_selects_nothing_witness:
  "\<not> bad_workers (Some 2)
   \<and> image_paths (four_images_env ''5000000000'') = [img_a, img_b, img_c, img_d]
   \<and> select_tasks True
        ({with_suffix img_a ''.json''} - json_paths (four_images_env ''5000000000''))
        (image_paths (four_images_env ''5000000000'')) = []
   \<and> process_images (four_images_env ''5000000000'') {with_suffix img_a ''.json''}
        ''mainnet'' ''max'' False True True (Some 2) False False =
       (Inr ([], [],
             \<lparr>unencoded = 0, encoded = 0, cost = 0, totalBlobIds = 0, uniqueBlobIds = 0,
                duplicateBlobIds = 0, hasDuplicates = False\<rparr>),
        {})"
  using resume_with_fresh_selects_nothing
    [of "{with_suffix img_a ''.json''}" "four_images_env ''5000000000''" "Some 2"
        "''mainnet''" "''max''" False False False]
  by (simp add: bad_workers_def image_paths_four json_paths_def)

section \<open>Admission control on the upload path\<close>

text \<open>
  C1 (as stated, refuted). The claim has the admitted items be exactly the largest prefix
  of the enumeration whose cumulative cost is within the balance, with nothing admitted
  after a rejection. The loop does not stop at a rejection: the \<^verbatim>\<open>RuntimeError\<close> is
  caught inside the loop body and the next item is tried against the unchanged balance.
  With 5 WAL and two images costing 10 and 1 WAL, the first is rejected and the second
  is stored: the admitted items are not a prefix.
\<close>

theorem admission_prefix_counterexample:
  "get_sui_balances two_images_env = Inr (wallet_json ''1000000000'' ''5000000000'')
   \<and> get_balances (wallet_json ''1000000000'' ''5000000000'') = Inr (Finite 1, Finite 5)
   \<and> image_paths two_images_env = [img_a, img_b]
   \<and> estimate_cost two_images_env img_a ''mainnet'' ''max'' False = Inr (Finite 10)
   \<and> estimate_cost two_images_env img_b ''mainnet'' ''max'' False = Inr (Finite 1)
   \<and> stored (snd (upload_images two_images_env {} ''mainnet'' ''max'' False)) = [img_b]
   \<and> \<not> (\<exists>k. stored (snd (upload_images two_images_env {} ''mainnet'' ''max'' False))
               = take k (image_paths two_images_env))"
proof -
  have "[img_b] \<noteq> take k [img_a, img_b]" for k
    by (cases k) (simp_all add: img_a_def img_b_def)
  then show ?thesis
    by (simp add: wallet_two balances_1_5 image_paths_two costs_two stored_two)
qed

text \<open>
  C1 (amended). Let the pre-flight check pass: the wallet listing is obtained and read,
  the SUI balance is positive and the WAL balance \<open>b\<close> is not zero. Let every dry run
  announce a cost, \<open>c p\<close> for the item \<open>p\<close>, and let the enumeration hold no item
  twice. Then the item at position \<open>i\<close> is admitted (its real store is run) exactly
  when its cost is not greater than the running balance at that point, which is \<open>b\<close>
  less the costs of the admitted items before position \<open>i\<close> whose store completed,
  taken off one after the other in the order of the enumeration. Balances and costs are
  Python floats (the quotient of the amount in FROST by \<^verbatim>\<open>10**9\<close>, rounded), every
  subtraction is rounded, and the comparison is that of floats. A rejection leaves the
  running balance as it is and the loop goes on, so the admitted items are those
  positions, in the order of the enumeration, and need not form a prefix.
\<close>

theorem admission_by_remaining_balance:
  assumes "get_sui_balances env = Inr balances" and "get_balances balances = Inr (sui, b)"
    and "\<not> float_is_zero sui" and "\<not> float_le sui (Finite 0)" and "\<not> float_is_zero b"
    and "\<forall>p \<in> set (image_paths env). estimate_cost env p ctx epochs share = Inr (c p)"
    and "distinct (image_paths env)"
  shows "(\<forall>i < length (image_paths env).
            image_paths env ! i \<in> admitted env fs ctx epochs share
              \<longleftrightarrow> \<not> float_lt
                      (foldl float_sub b
                         (map c (filter
                            (\<lambda>q. q \<in> admitted env fs ctx epochs share
                                 \<and> store_succeeds env ctx epochs share q)
                            (take i (image_paths env)))))
                      (c (image_paths env ! i)))
       \<and> stored (snd (upload_images env fs ctx epochs share))
           = filter (\<lambda>q. q \<in> admitted env fs ctx epochs share) (image_paths env)"
proof -
  have st: "stored (snd (upload_images env fs ctx epochs share))
              = admit c (store_succeeds env ctx epochs share) b (image_paths env)"
    by (rule admitted_eq_admit [OF assms(1-6)])
  have adm: "admitted env fs ctx epochs share
               = set (admit c (store_succeeds env ctx epochs share) b (image_paths env))"
    unfolding admitted_def by (simp add: st)
  show ?thesis
    unfolding adm st
    using admit_by_running_balance [OF assms(7)] admit_in_order [OF assms(7)]
    by blast
qed

text \<open>Witness for C1. With 1 SUI, 0.3 WAL and three images costing 0.1 WAL each, the
  first two are admitted and the third is rejected: what is left after two rounded
  subtractions is just below the float 0.1. With 5 WAL and four images costing 2, 4, 1
  and 1 WAL, the first is admitted, the second rejected, the third and fourth
  admitted.\<close>

theorem admission_by_remaining_balance_witness:
  "(get_sui_balances three_tenths_env = Inr (wallet_json ''1000000000'' ''300000000'')
    \<and> get_balances (wallet_json ''1000000000'' ''300000000'')
        = Inr (Finite 1, Finite (5404319552844595 / 18014398509481984))
    \<and> image_paths three_tenths_env = [img_a, img_b, img_c]
    \<and> distinct (image_paths three_tenths_env)
    \<and> map (\<lambda>p. estimate_cost three_tenths_env p ''mainnet'' ''max'' False) [img_a, img_b, img_c]
        = [Inr (Finite (3602879701896397 / 36028797018963968)),
           Inr (Finite (3602879701896397 / 36028797018963968)),
           Inr (Finite (3602879701896397 / 36028797018963968))]
    \<and> list_all (store_succeeds three_tenths_env ''mainnet'' ''max'' False) [img_a, img_b, img_c]
    \<and> img_a \<in> admitted three_tenths_env {} ''mainnet'' ''max'' False
    \<and> img_b \<in> admitted three_tenths_env {} ''mainnet'' ''max'' False
    \<and> img_c \<notin> admitted three_tenths_env {} ''mainnet'' ''max'' False)
   \<and> (get_sui_balances (four_images_env ''5000000000'')
        = Inr (wallet_json ''1000000000'' ''5000000000'')
    \<and> get_balances (wallet_json ''1000000000'' ''5000000000'') = Inr (Finite 1, Finite 5)
    \<and> image_paths (four_images_env ''5000000000'') = [img_a, img_b, img_c, img_d]
    \<and> distinct (image_paths (four_images_env ''5000000000''))
    \<and> map (\<lambda>p. estimate_cost (four_images_env ''5000000000'') p ''mainnet'' ''max'' False)
        [img_a, img_b, img_c, img_d]
        = [Inr (Finite 2), Inr (Finite 4), Inr (Finite 1), Inr (Finite 1)]
    \<and> list_all (store_succeeds (four_images_env ''5000000000'') ''mainnet'' ''max'' False)
        [img_a, img_b, img_c, img_d]
    \<and> img_a \<in> admitted (four_images_env ''5000000000'') {} ''mainnet'' ''max'' False
    \<and> img_b \<notin> admitted (four_images_env ''5000000000'') {} ''mainnet'' ''max'' False
    \<and> img_c \<in> admitted (four_images_env ''5000000000'') {} ''mainnet'' ''max'' False
    \<and> img_d \<in> admitted (four_images_env ''5000000000'') {} ''mainnet'' ''max'' False)"
proof -
  note d = images_distinct
  have ne: "img_a \<noteq> img_b" "img_a \<noteq> img_c" "img_a \<noteq> img_d" "img_b \<noteq> img_c"
    "img_b \<noteq> img_d" "img_c \<noteq> img_d"
    using d by simp_all
  have sui: "\<not> float_is_zero (Finite 1)" "\<not> float_le (Finite 1) (Finite 0)"
    by (simp_all add: float_is_zero_def float_le_def)
  have three: "img_a \<in> admitted three_tenths_env {} ''mainnet'' ''max'' False
    \<and> img_b \<in> admitted three_tenths_env {} ''mainnet'' ''max'' False
    \<and> img_c \<notin> admitted three_tenths_env {} ''mainnet'' ''max'' False"
  proof -
    let ?env = three_tenths_env
    let ?c = "\<lambda>p :: path. Finite (3602879701896397 / 36028797018963968)"
    let ?adm = "admitted ?env {} ''mainnet'' ''max'' False"
    have costs: "\<forall>p \<in> set (image_paths ?env).
                   estimate_cost ?env p ''mainnet'' ''max'' False = Inr (?c p)"
      by (simp add: image_paths_three costs_three)
    have dist: "distinct (image_paths ?env)"
      using d by (simp add: image_paths_three)
    have wal: "\<not> float_is_zero (Finite (5404319552844595 / 18014398509481984))"
      by (simp add: float_is_zero_def)
    note main = admission_by_remaining_balance
      [OF wallet_three balances_three_tenths sui wal costs dist, of "{}", THEN conjunct1]
    from main [THEN spec, of 0]
    have a: "img_a \<in> ?adm"
      by (simp add: image_paths_three)
    from main [THEN spec, of 1]
    have b: "img_b \<in> ?adm"
      using a stores_three by (simp add: image_paths_three float_facts)
    from main [THEN spec, of 2]
    have "img_c \<notin> ?adm"
      using a b stores_three by (simp add: image_paths_three float_facts)
    with a b show ?thesis
      by simp
  qed
  have four: "img_a \<in> admitted (four_images_env ''5000000000'') {} ''mainnet'' ''max'' False
    \<and> img_b \<notin> admitted (four_images_env ''5000000000'') {} ''mainnet'' ''max'' False
    \<and> img_c \<in> admitted (four_images_env ''5000000000'') {} ''mainnet'' ''max'' False
    \<and> img_d \<in> admitted (four_images_env ''5000000000'') {} ''mainnet'' ''max'' False"
  proof -
    let ?env = "four_images_env ''5000000000''"
    let ?c = "\<lambda>p. if p = img_a then Finite 2 else if p = img_b then Finite 4 else Finite 1"
    let ?adm = "admitted ?env {} ''mainnet'' ''max'' False"
    have costs: "\<forall>p \<in> set (image_paths ?env).
                   estimate_cost ?env p ''mainnet'' ''max'' False = Inr (?c p)"
      using d by (auto simp: image_paths_four costs_four)
    have dist: "distinct (image_paths ?env)"
      using d by (simp add: image_paths_four)
    have wal: "\<not> float_is_zero (Finite 5)"
      by (simp add: float_is_zero_def)
    note main = admission_by_remaining_balance
      [OF wallet_four balances_1_5 sui wal costs dist, of "{}", THEN conjunct1]
    from main [THEN spec, of 0]
    have a: "img_a \<in> ?adm"
      by (simp add: image_paths_four)
    from main [THEN spec, of 1]
    have b: "img_b \<notin> ?adm"
      using a ne stores_four [of "''5000000000''"] by (simp add: image_paths_four float_facts)
    from main [THEN spec, of 2]
    have c: "img_c \<in> ?adm"
      using a b ne stores_four [of "''5000000000''"] by (simp add: image_paths_four float_facts)
    from main [THEN spec, of 3]
    have "img_d \<in> ?adm"
      using a b c ne stores_four [of "''5000000000''"]
      by (simp add: image_paths_four float_facts eval_nat_numeral)
    with a b c show ?thesis
      by simp
  qed
  from three four d show ?thesis
    by (simp add: wallet_three balances_three_tenths image_paths_three costs_three stores_three
          wallet_four balances_1_5 image_paths_four costs_four stores_four)
qed

section \<open>Running default mode twice\<close>

text \<open>
  C5 (as stated, refuted). The claim has a second default-mode run select nothing. With
  cleanup on (the default of the command line) the first run deletes every candidate's
  marker before it returns, so the second run selects every candidate again; with
  cleanup off, an item that failed on the first run wrote no marker and is selected
  again.
\<close>

theorem default_twice_counterexample:
  "image_paths two_images_env = [img_a, img_b]
   \<and> select_tasks False {} (image_paths two_images_env) = [img_a, img_b]
   \<and> map s_img_path (fst (projr (fst
        (process_images two_images_env {} ''mainnet'' ''max'' False False False None False True))))
       = [''images/a.png'', ''images/b.PNG'']
   \<and> select_tasks False
        (snd (process_images two_images_env {} ''mainnet'' ''max'' False False False None False True))
        (image_paths two_images_env) = [img_a, img_b]
   \<and> select_tasks False
        (snd (process_images one_failing_env {} ''mainnet'' ''max'' False False False None False False))
        (image_paths one_failing_env) = [img_b]"
  by (simp add: simulate_two_images_clean simulate_one_failing image_paths_two
        image_paths_one_failing select_tasks_def with_suffix_def img_a_def img_b_def)

text \<open>
  C5 (amended). After a default-mode run that returns, a second default-mode selection
  with no change in between gives: with cleanup on, every candidate again; with cleanup
  off, only items that were selected by the first run and failed in it (each has an
  entry in its errors), so no item that succeeded is selected again and the selection
  is empty when the first run had no error.
\<close>

theorem default_twice_selects_only_failures:
  assumes "process_images env fs ctx epochs share False False workers verify clean
             = (Inr (rs, es, t), fs')"
  shows "(clean \<longrightarrow> select_tasks False fs' (image_paths env) = image_paths env)
       \<and> (\<not> clean \<longrightarrow>
            (\<forall>p \<in> set (select_tasks False fs' (image_paths env)).
               p \<in> set (select_tasks False fs (image_paths env))
               \<and> isl (sim_outcome env ctx epochs share p)
               \<and> path_str p \<in> e_image ` set es)
            \<and> (es = [] \<longrightarrow> select_tasks False fs' (image_paths env) = []))"
proof -
  let ?tasks = "select_tasks False fs (image_paths env)"
  let ?out = "sim_outcome env ctx epochs share"
  let ?fs2 = "fs \<union> (\<lambda>p. with_suffix p ''.json'') ` {p \<in> set ?tasks. \<not> isl (?out p)}"
  from assms have fst_eq:
    "fst (process_images env fs ctx epochs share False False workers verify clean) = Inr (rs, es, t)"
    and snd_eq: "snd (process_images env fs ctx epochs share False False workers verify clean) = fs'"
    by simp_all
  from fst_eq obtain outcomes fs2 where
    run: "simulate_all env ctx epochs share ?tasks fs = (outcomes, fs2)"
    and split: "split_outcomes outcomes = (rs, es)"
    and after: "snd (process_images env fs ctx epochs share False False workers verify clean)
                  = (if clean then fs2 - json_paths env else fs2)"
    by (rule process_images_returns) simp
  from run have outcomes: "outcomes = map ?out ?tasks" and fs2: "fs2 = ?fs2"
    by (simp_all add: simulate_all_eq)
  from after snd_eq have fs': "fs' = (if clean then fs2 - json_paths env else fs2)"
    by simp
  have cleaned: "select_tasks False fs' (image_paths env) = image_paths env" if clean
    using that fs' by (simp add: select_tasks_default marker_in_json_paths)
  have again: "p \<in> set ?tasks \<and> isl (?out p) \<and> path_str p \<in> e_image ` set es"
    if "\<not> clean" and p: "p \<in> set (select_tasks False fs' (image_paths env))" for p
  proof -
    from that fs' fs2 have img: "p \<in> set (image_paths env)"
      and absent: "with_suffix p ''.json'' \<notin> ?fs2"
      by (simp_all add: select_tasks_default)
    from img absent have task: "p \<in> set ?tasks"
      by (simp add: select_tasks_default)
    with absent have failed: "isl (?out p)"
      by auto
    then obtain e where e: "?out p = Inl e"
      by (cases "?out p") simp_all
    with task outcomes have "Inl e \<in> set outcomes"
      by (auto simp: image_iff intro: bexI [of _ p])
    with split_outcomes_sets [OF split] have "e \<in> set es"
      by simp
    moreover from sim_outcome_path [where env = env and ctx = ctx and epochs = epochs and share = share and p = p] e have "e_image e = path_str p"
      by simp
    ultimately have "path_str p \<in> e_image ` set es"
      by (auto simp: image_iff intro: bexI [of _ e])
    with task failed show ?thesis
      by simp
  qed
  have none: "select_tasks False fs' (image_paths env) = []" if "\<not> clean" and "es = []"
  proof (rule ccontr)
    assume "select_tasks False fs' (image_paths env) \<noteq> []"
    then obtain p where "p \<in> set (select_tasks False fs' (image_paths env))"
      by (cases "select_tasks False fs' (image_paths env)") auto
    from again [OF that(1) this] that(2) show False
      by simp
  qed
  from cleaned again none show ?thesis
    by blast
qed

text \<open>Witness for C5: cleanup off with one failing image, and cleanup on with two images
  that both succeed.\<close>

theorem default_twice_selects_only_failures_witness:
  "(\<exists>rs es t fs'.
      process_images one_failing_env {} ''mainnet'' ''max'' False False False None False False
        = (Inr (rs, es, t), fs')
      \<and> map e_image es = [''images/b.PNG'']
      \<and> select_tasks False fs' (image_paths one_failing_env) = [img_b])
   \<and> (\<exists>rs es t fs'.
      process_images two_images_env {} ''mainnet'' ''max'' False False False None False True
        = (Inr (rs, es, t), fs')
      \<and> select_tasks False fs' (image_paths two_images_env) = [img_a, img_b])"
  using default_twice_selects_only_failures [OF simulate_one_failing [of False]]
    default_twice_selects_only_failures [OF simulate_two_images_clean]
  by (simp add: simulate_two_images_clean simulate_one_failing image_paths_two
        image_paths_one_failing select_tasks_def with_suffix_def img_a_def img_b_def)

section \<open>The pre-flight balance check\<close>

text \<open>A WAL balance of zero always fails the pre-flight check: \<^verbatim>\<open>get_balances\<close> yields
  0 for an absent and for a zero balance alike, and \<^verbatim>\<open>not wal_balance\<close> holds for 0.\<close>

lemma zero_wal_always_aborts:
  "get_sui_balances env = Inr balances \<Longrightarrow> get_balances balances = Inr (sui, Finite 0) \<Longrightarrow>
   isl (fst (upload_images env fs ctx epochs share))
   \<and> stored (snd (upload_images env fs ctx epochs share)) = []"
  by (simp add: upload_images_def Let_def float_is_zero_def)

text \<open>
  C2 (the code departs from the claim). The claim, like the comment on line 63 of the
  source (\<^verbatim>\<open>Only checking if None, allowing zero balance\<close>), permits a WAL balance of
  exactly zero. The code raises for it: with 1 SUI and 0 WAL the run fails with
  \<^verbatim>\<open>WAL/FROST balance not found.\<close> before any item is processed.
\<close>

theorem zero_wal_balance_aborts:
  "get_sui_balances zero_wal_env = Inr (wallet_json ''1000000000'' ''0'')
   \<and> get_balances (wallet_json ''1000000000'' ''0'') = Inr (Finite 1, Finite 0)
   \<and> image_paths zero_wal_env = [img_a, img_b]
   \<and> upload_images zero_wal_env {} ''mainnet'' ''max'' False =
       (Inl (RuntimeError ''WAL/FROST balance not found.''),
        \<lparr>wal_available = Finite 0, results = [], errors = [], files = {}, stored = []\<rparr>)"
  by (simp add: zero_wal_env_def world_defs python_defs upload_defs float_facts)

section \<open>Interruption of a simulate run\<close>

text \<open>
  Whatever the first call had selected, the second call of an interrupted run keeps the
  markers found at the signal, and every result it reports belongs to a candidate whose
  marker did not exist at the signal.
\<close>

lemma interrupt_rerun_skips_persisted:
  assumes "simulate env fs ctx epochs share resume fresh workers verify clean (Some finished)
             = (Inr (rs, es, t), True, fs')"
  shows "interrupted_files env fs ctx epochs share resume fresh finished \<subseteq> fs'
       \<and> (\<forall>r \<in> set rs. \<exists>p \<in> set (image_paths env).
             s_img_path r = path_str p
             \<and> with_suffix p ''.json''
                 \<notin> interrupted_files env fs ctx epochs share resume fresh finished)"
proof -
  let ?fs_int = "interrupted_files env fs ctx epochs share resume fresh finished"
  let ?tasks = "select_tasks False ?fs_int (image_paths env)"
  let ?out = "sim_outcome env ctx epochs share"
  from assms have ok: "\<not> bad_workers workers"
    by (auto simp: simulate_def Let_def split: prod.splits if_splits)
  with assms have run:
    "process_images env ?fs_int ctx epochs share False False workers verify False
       = (Inr (rs, es, t), fs')"
    by (auto simp: simulate_def Let_def split: prod.splits)
  then have "fst (process_images env ?fs_int ctx epochs share False False workers verify False)
               = Inr (rs, es, t)"
    by simp
  then obtain outcomes fs2 where
    sim: "simulate_all env ctx epochs share ?tasks ?fs_int = (outcomes, fs2)"
    and split: "split_outcomes outcomes = (rs, es)"
    and after: "snd (process_images env ?fs_int ctx epochs share False False workers verify False)
                  = fs2"
    by (rule process_images_returns) simp
  from sim have outcomes: "outcomes = map ?out ?tasks" and "?fs_int \<subseteq> fs2"
    by (auto simp: simulate_all_eq)
  with after run have kept: "?fs_int \<subseteq> fs'"
    by simp
  have "\<exists>p \<in> set (image_paths env).
          s_img_path r = path_str p \<and> with_suffix p ''.json'' \<notin> ?fs_int"
    if "r \<in> set rs" for r
  proof -
    from that split_outcomes_sets [OF split] outcomes obtain p where
      p: "p \<in> set ?tasks" and r: "?out p = Inr r"
      by auto
    from sim_outcome_path [where env = env and ctx = ctx and epochs = epochs and share = share
        and p = p] r
    have "s_img_path r = path_str p"
      by simp
    with p show ?thesis
      by (auto simp: select_tasks_default)
  qed
  with kept show ?thesis
    by blast
qed

text \<open>
  C6 (the code departs from the claim). The second call is non-destructive, as the
  claim says: no wipe, no cleanup, the markers written before the signal stay. But it
  runs with \<^verbatim>\<open>resume=False\<close>, so it selects and simulates the items that have no
  marker yet, and its report holds those items only. With four images and the signal
  arriving after the first two have finished, the final report holds the last two; the
  two whose markers were persisted before the signal are not in it.
\<close>

theorem interrupt_rerun_reports_unfinished_items:
  "interrupted_files (four_images_env ''5000000000'') {} ''mainnet'' ''max'' False False False
     {img_a, img_b}
     = {Path ''images'' ''a'' ''.json'', Path ''images'' ''b'' ''.json''}
   \<and> simulate (four_images_env ''5000000000'') {} ''mainnet'' ''max'' False False False None
       False True (Some {img_a, img_b}) =
       (Inr ([\<lparr>s_img_path = ''images/c.jpg'', s_blobId = JStr ''B'', s_unencodedSize = JInt 300,
                s_encodedSize = JInt 19200, s_storageCost = JInt 1000000000,
                s_encodingType = JStr ''RS2''\<rparr>,
              \<lparr>s_img_path = ''images/d.webp'', s_blobId = JStr ''C'', s_unencodedSize = JInt 400,
                s_encodedSize = JInt 25600, s_storageCost = JInt 1000000000,
                s_encodingType = JStr ''RS2''\<rparr>],
             [],
             \<lparr>unencoded = 700, encoded = 44800, cost = 2000000000, totalBlobIds = 2,
                uniqueBlobIds = 2, duplicateBlobIds = 0, hasDuplicates = False\<rparr>),
        True,
        {Path ''images'' ''a'' ''.json'', Path ''images'' ''b'' ''.json'',
         Path ''images'' ''c'' ''.json'', Path ''images'' ''d'' ''.json''})"
  by (simp add: simulate_def interrupted_files_def four_images_env_def world_defs python_defs
        simulate_defs insert_commute)


end
